theory Spec2Isabelle
  imports Complex_Main "HOL-Library.Multiset"
begin

section \<open>JavaScript primitives used by the scheduling code\<close>

text \<open>
  A JavaScript number that the calendar code computes with is an integer or \<open>NaN\<close>;
  it is modelled as \<open>int option\<close> with \<open>None\<close> for \<open>NaN\<close>. Arithmetic propagates
  \<open>NaN\<close> and every comparison with \<open>NaN\<close> is false, as in the language. Infinities, fractions
  and the loss of precision above \<open>2^53\<close> are outside the model.
\<close>

type_synonym jsnum = "int option"

definition js_add :: "jsnum \<Rightarrow> jsnum \<Rightarrow> jsnum" where
  "js_add a b = (case (a, b) of (Some x, Some y) \<Rightarrow> Some (x + y) | _ \<Rightarrow> None)"

definition js_sub :: "jsnum \<Rightarrow> jsnum \<Rightarrow> jsnum" where
  "js_sub a b = (case (a, b) of (Some x, Some y) \<Rightarrow> Some (x - y) | _ \<Rightarrow> None)"

definition js_mul :: "jsnum \<Rightarrow> jsnum \<Rightarrow> jsnum" where
  "js_mul a b = (case (a, b) of (Some x, Some y) \<Rightarrow> Some (x * y) | _ \<Rightarrow> None)"

definition js_lt :: "jsnum \<Rightarrow> jsnum \<Rightarrow> bool" where
  "js_lt a b = (case (a, b) of (Some x, Some y) \<Rightarrow> x < y | _ \<Rightarrow> False)"

definition js_le :: "jsnum \<Rightarrow> jsnum \<Rightarrow> bool" where
  "js_le a b = (case (a, b) of (Some x, Some y) \<Rightarrow> x \<le> y | _ \<Rightarrow> False)"

definition js_gt :: "jsnum \<Rightarrow> jsnum \<Rightarrow> bool" where
  "js_gt a b = js_lt b a"

definition js_ge :: "jsnum \<Rightarrow> jsnum \<Rightarrow> bool" where
  "js_ge a b = js_le b a"

text \<open>The operator \<open>%\<close> on integers: the remainder takes the sign of the dividend.\<close>

definition js_rem_int :: "int \<Rightarrow> int \<Rightarrow> int" where
  "js_rem_int a b = (if a < 0 then - ((- a) mod \<bar>b\<bar>) else a mod \<bar>b\<bar>)"

definition js_rem :: "jsnum \<Rightarrow> int \<Rightarrow> jsnum" where
  "js_rem a b = (case a of None \<Rightarrow> None | Some x \<Rightarrow> if b = 0 then None else Some (js_rem_int x b))"

text \<open>\<open>Math.floor(a / b)\<close> for a positive integer constant \<open>b\<close>.\<close>

definition js_floor_div :: "jsnum \<Rightarrow> int \<Rightarrow> jsnum" where
  "js_floor_div a b = map_option (\<lambda>x. x div b) a"

text \<open>\<open>s.split(':')\<close>: always at least one piece, the empty string giving one empty piece.\<close>

fun split_colon :: "string \<Rightarrow> string list" where
  "split_colon [] = [[]]"
| "split_colon (c # cs) =
     (if c = CHR '':'' then [] # split_colon cs
      else (case split_colon cs of [] \<Rightarrow> [[c]] | p # ps \<Rightarrow> (c # p) # ps))"

definition is_digit :: "char \<Rightarrow> bool" where
  "is_digit c = (c \<in> set ''0123456789'')"

text \<open>The value of a decimal digit is its position in the digit table, and conversely.\<close>

definition digit_val :: "char \<Rightarrow> nat" where
  "digit_val c = length (takeWhile (\<lambda>d. d \<noteq> c) ''0123456789'')"

definition digit_char :: "nat \<Rightarrow> char" where
  "digit_char d = ''0123456789'' ! d"

definition digits_val :: "string \<Rightarrow> nat" where
  "digits_val s = foldl (\<lambda>a c. 10 * a + digit_val c) 0 s"

definition is_space :: "char \<Rightarrow> bool" where
  "is_space c = (c = CHR '' '' \<or> c = CHR 0x09 \<or> c = CHR 0x0A \<or> c = CHR 0x0D)"

definition js_trim :: "string \<Rightarrow> string" where
  "js_trim s = rev (dropWhile is_space (rev (dropWhile is_space s)))"

text \<open>
  \<open>Number(s)\<close> on the strings of this program: surrounding white space is dropped, the empty
  string is \<open>0\<close>, an optionally signed run of decimal digits is its value, and anything else
  is \<open>NaN\<close>. Fractions, exponents, radix prefixes and \<open>Infinity\<close>, which \<open>Number\<close> also
  reads, are outside the model.
\<close>

definition js_Number :: "string \<Rightarrow> jsnum" where
  "js_Number s =
     (case js_trim s of
        [] \<Rightarrow> Some 0
      | c # ds \<Rightarrow>
          if c = CHR ''-'' \<or> c = CHR ''+'' then
            (if ds \<noteq> [] \<and> list_all is_digit ds
             then Some ((if c = CHR ''-'' then - 1 else 1) * int (digits_val ds))
             else None)
          else if list_all is_digit (c # ds) then Some (int (digits_val (c # ds)))
          else None)"

function digits_of_nat :: "nat \<Rightarrow> string" where
  "digits_of_nat n =
     (if n < 10 then [digit_char n] else digits_of_nat (n div 10) @ [digit_char (n mod 10)])"
  by pat_completeness auto
termination
  by (relation "measure (\<lambda>n. n)") auto

text \<open>\<open>String(x)\<close> for an integer or \<open>NaN\<close>.\<close>

definition js_String :: "jsnum \<Rightarrow> string" where
  "js_String x =
     (case x of
        None \<Rightarrow> ''NaN''
      | Some i \<Rightarrow> if i < 0 then CHR ''-'' # digits_of_nat (nat (- i)) else digits_of_nat (nat i))"

text \<open>\<open>s.padStart(2, '0')\<close>.\<close>

definition padStart2 :: "string \<Rightarrow> string" where
  "padStart2 s = replicate (2 - length s) (CHR ''0'') @ s"

section \<open>Time-of-day helpers (CalendarPage.tsx)\<close>

definition timeToMinutes :: "string \<Rightarrow> jsnum" where
  "timeToMinutes time =
     (if time = [] then Some 0
      else (case map js_Number (split_colon time) of
              hours # minutes # _ \<Rightarrow> js_add (js_mul hours (Some 60)) minutes
            | _ \<Rightarrow> None))"

definition minutesToTime :: "jsnum \<Rightarrow> string" where
  "minutesToTime minutes =
     (let h = js_rem (js_floor_div minutes 60) 24;
          m = js_rem minutes 60
      in padStart2 (js_String h) @ '':'' @ padStart2 (js_String m))"

definition doTimesOverlap :: "string \<Rightarrow> string \<Rightarrow> string \<Rightarrow> string \<Rightarrow> bool" where
  "doTimesOverlap startA endA startB endB =
     (let startAMin = timeToMinutes startA;
          endAMin = timeToMinutes endA;
          startBMin = timeToMinutes startB;
          endBMin = timeToMinutes endB
      in js_lt startAMin endBMin \<and> js_gt endAMin startBMin)"

text \<open>A well-formed wall-clock string: two digits, a colon, two digits, at most 23:59.\<close>

definition valid_time :: "string \<Rightarrow> bool" where
  "valid_time t =
     (case t of
        [h1, h2, c, m1, m2] \<Rightarrow>
          c = CHR '':'' \<and> is_digit h1 \<and> is_digit h2 \<and> is_digit m1 \<and> is_digit m2
          \<and> 10 * digit_val h1 + digit_val h2 \<le> 23
          \<and> 10 * digit_val m1 + digit_val m2 \<le> 59
      | _ \<Rightarrow> False)"

section \<open>Schedule data (types.ts)\<close>

datatype Day = Monday | Tuesday | Wednesday | Thursday | Friday | Saturday | Sunday

record ScheduleEvent =
  event_id :: string
  day :: Day
  title :: string
  startTime :: string
  endTime :: string

record DNDWindow =
  dnd_day :: Day
  dnd_startTime :: string
  dnd_endTime :: string

datatype ReminderStatus = Active | Snoozed | Done | Paused | Ignored

datatype SuccessState = success | snoozed | ignored

text \<open>
  An instant is a number of milliseconds; \<open>snoozedUntil\<close>, \<open>lastInteraction\<close> and the
  pause-until setting, which the program stores as the ISO string of an instant, are
  modelled as the instant itself, \<open>None\<close> being \<open>null\<close> or an absent field.
\<close>

record SmartReminder =
  reminder_id :: string
  eventId :: string
  offsetMinutes :: int
  message :: string
  isLocked :: bool
  isExploratory :: bool
  status :: ReminderStatus
  snoozeHistory :: "int list"
  snoozedUntil :: "int option"
  successHistory :: "SuccessState list"
  originalOffsetMinutes :: "int option"
  lastInteraction :: "int option"
  allowExploration :: "bool option"

section \<open>Dates\<close>

text \<open>
  A \<open>Date\<close> is its time value, a \<open>jsnum\<close> (\<open>NaN\<close> for an invalid date). Local time is
  taken to be a fixed zone whose days are the multiples of 86400000 ms, day 0 being a
  Thursday; daylight-saving changes are outside the model. One clock reading \<open>now\<close> is
  passed in where the code calls \<open>new Date()\<close> or \<open>Date.now()\<close>.
\<close>

definition msPerDay :: int where
  "msPerDay = 86400000"

definition startOfDay :: "int \<Rightarrow> int" where
  "startOfDay t = t - t mod msPerDay"

text \<open>\<open>d = new Date(t); d.setHours(h, m, 0, 0)\<close>.\<close>

definition setHours :: "int \<Rightarrow> jsnum \<Rightarrow> jsnum \<Rightarrow> jsnum" where
  "setHours t h m =
     (case (h, m) of
        (Some hv, Some mv) \<Rightarrow> Some (startOfDay t + hv * 3600000 + mv * 60000)
      | _ \<Rightarrow> None)"

text \<open>\<open>getDay()\<close>: 0 is Sunday.\<close>

definition getDay :: "int \<Rightarrow> nat" where
  "getDay t = nat ((t div msPerDay + 4) mod 7)"

definition DAYS_OF_WEEK :: "Day list" where
  "DAYS_OF_WEEK = [Monday, Tuesday, Wednesday, Thursday, Friday, Saturday, Sunday]"

definition todayDay :: "int \<Rightarrow> Day" where
  "todayDay now = DAYS_OF_WEEK ! (if getDay now = 0 then 6 else getDay now - 1)"

text \<open>
  \<open>const [h, m] = s.split(':').map(Number)\<close>: a missing second piece is \<open>undefined\<close>,
  which \<open>isNaN\<close>, \<open>setHours\<close> and arithmetic all treat as \<open>NaN\<close>.
\<close>

definition parseHM :: "string \<Rightarrow> jsnum \<times> jsnum" where
  "parseHM s =
     (case map js_Number (split_colon s) of
        [] \<Rightarrow> (None, None)
      | [h] \<Rightarrow> (h, None)
      | h # m # _ \<Rightarrow> (h, m))"

section \<open>The active reminder list (CalendarPage.tsx, activeReminders)\<close>

record ActiveReminder =
  reminder :: SmartReminder
  event :: ScheduleEvent
  triggerTime :: jsnum
  shiftedReason :: "string option"

text \<open>
  The do-not-disturb step of \<open>activeReminders\<close>: the window of today's weekday is turned
  into two instants around \<open>now\<close>, and a trigger between them (both ends included) is moved
  to the second one.
\<close>

definition dndBounds :: "int \<Rightarrow> DNDWindow \<Rightarrow> (int \<times> int) option" where
  "dndBounds now w =
     (if dnd_startTime w \<noteq> [] \<and> dnd_endTime w \<noteq> [] then
        (case (parseHM (dnd_startTime w), parseHM (dnd_endTime w)) of
           ((Some sh, Some sm), (Some eh, Some em)) \<Rightarrow>
             (let dndStart = startOfDay now + sh * 3600000 + sm * 60000;
                  dndEnd = startOfDay now + eh * 3600000 + em * 60000
              in if dndEnd < dndStart then
                   (if now < dndEnd then Some (dndStart - msPerDay, dndEnd)
                    else Some (dndStart, dndEnd + msPerDay))
                 else Some (dndStart, dndEnd))
         | _ \<Rightarrow> None)
      else None)"

definition dndShift :: "int \<Rightarrow> DNDWindow list \<Rightarrow> jsnum \<Rightarrow> jsnum \<times> string option" where
  "dndShift now dndWindows trig =
     (case find (\<lambda>d. dnd_day d = todayDay now) dndWindows of
        None \<Rightarrow> (trig, None)
      | Some w \<Rightarrow>
          (case dndBounds now w of
             None \<Rightarrow> (trig, None)
           | Some (dndStart, dndEnd) \<Rightarrow>
               if js_ge trig (Some dndStart) \<and> js_le trig (Some dndEnd)
               then (Some dndEnd, Some ''DND-shifted'')
               else (trig, None)))"

text \<open>The trigger before the do-not-disturb step.\<close>

definition baseTrigger :: "int \<Rightarrow> ScheduleEvent \<Rightarrow> SmartReminder \<Rightarrow> jsnum" where
  "baseTrigger now ev r =
     (let (h, m) = parseHM (startTime ev);
          eventDate = setHours now h m;
          trig = js_add eventDate (Some (offsetMinutes r * 60000))
      in if (status r = Snoozed \<or> status r = Paused) \<and> snoozedUntil r \<noteq> None
         then snoozedUntil r else trig)"

text \<open>The body of the \<open>map\<close>: \<open>None\<close> is the \<open>null\<close> that the following filter removes.\<close>

definition resolveReminder ::
  "int \<Rightarrow> ScheduleEvent list \<Rightarrow> DNDWindow list \<Rightarrow> SmartReminder \<Rightarrow> ActiveReminder option" where
  "resolveReminder now scheduleEvents dndWindows r =
     (case find (\<lambda>e. event_id e = eventId r) scheduleEvents of
        None \<Rightarrow> None
      | Some ev \<Rightarrow>
          (let trig = baseTrigger now ev r
           in if js_lt trig (Some now) \<and> status r \<noteq> Snoozed \<and> status r \<noteq> Paused then None
              else (let (t, reason) = dndShift now dndWindows trig
                    in Some \<lparr>reminder = r, event = ev, triggerTime = t, shiftedReason = reason\<rparr>)))"

text \<open>
  \<open>xs.sort(cmp)\<close> as a stable insertion sort; \<open>gt a b\<close> says that \<open>cmp(a, b) > 0\<close>. A
  comparison that yields \<open>NaN\<close> counts as a tie. (With invalid dates among the triggers the
  comparator is inconsistent and the language leaves the order open; the model fixes one.)
\<close>

fun insert_by :: "('a \<Rightarrow> 'a \<Rightarrow> bool) \<Rightarrow> 'a \<Rightarrow> 'a list \<Rightarrow> 'a list" where
  "insert_by gt x [] = [x]"
| "insert_by gt x (y # ys) = (if gt x y then y # insert_by gt x ys else x # y # ys)"

definition sort_by :: "('a \<Rightarrow> 'a \<Rightarrow> bool) \<Rightarrow> 'a list \<Rightarrow> 'a list" where
  "sort_by gt xs = foldr (insert_by gt) xs []"

text \<open>\<open>pauseUntil && new Date() < new Date(pauseUntil)\<close>.\<close>

definition pauseInEffect :: "int \<Rightarrow> int option \<Rightarrow> bool" where
  "pauseInEffect now pauseUntil = (case pauseUntil of None \<Rightarrow> False | Some p \<Rightarrow> now < p)"

definition activeReminders ::
  "int \<Rightarrow> int option \<Rightarrow> SmartReminder list \<Rightarrow> ScheduleEvent list \<Rightarrow> DNDWindow list
   \<Rightarrow> ActiveReminder list" where
  "activeReminders now pauseUntil smartReminders scheduleEvents dndWindows =
     (if pauseInEffect now pauseUntil then []
      else sort_by (\<lambda>a b. js_gt (js_sub (triggerTime a) (triggerTime b)) (Some 0))
             (List.map_filter (resolveReminder now scheduleEvents dndWindows)
                (filter (\<lambda>r. status r = Active \<or> status r = Snoozed \<or> status r = Paused)
                   smartReminders)))"

text \<open>
  Containment of a minute of the day in a window given by its start and end minutes, as
  the specification states it and as \<open>determineOptimalTheme\<close> (utils/themeEngine) computes
  it: half-open, and wrapping past midnight when the end is below the start.
\<close>

definition insideWindow :: "int \<Rightarrow> int \<Rightarrow> int \<Rightarrow> bool" where
  "insideWindow dndStart dndEnd t =
     (if dndEnd < dndStart then t \<ge> dndStart \<or> t < dndEnd
      else t \<ge> dndStart \<and> t < dndEnd)"

text \<open>The minute of the day of an instant.\<close>

definition minuteOfDay :: "int \<Rightarrow> int" where
  "minuteOfDay t = (t mod msPerDay) div 60000"

section \<open>Moving an anchor and resolving a conflict (CalendarPage.tsx)\<close>

text \<open>
  \<open>moveEvent\<close> returns the new anchor list; an unknown id leaves it as it is. The optional
  \<open>newStartTime\<close> is \<open>None\<close> when the argument is left out, and the empty string is
  falsy as in the source.
\<close>

definition moveEvent ::
  "ScheduleEvent list \<Rightarrow> string \<Rightarrow> Day \<Rightarrow> string option \<Rightarrow> ScheduleEvent list" where
  "moveEvent scheduleEvents eid targetDay newStartTime =
     (case find (\<lambda>e. event_id e = eid) scheduleEvents of
        None \<Rightarrow> scheduleEvents
      | Some eventToMove \<Rightarrow>
          (let start = (case newStartTime of
                          None \<Rightarrow> startTime eventToMove
                        | Some s \<Rightarrow> if s = [] then startTime eventToMove else s);
               duration = js_sub (timeToMinutes (endTime eventToMove))
                                 (timeToMinutes (startTime eventToMove));
               end' = minutesToTime (js_add (timeToMinutes start) duration)
           in map (\<lambda>e. if event_id e = eid
                         then e\<lparr>day := targetDay, startTime := start, endTime := end'\<rparr>
                         else e) scheduleEvents))"

datatype ConflictKind = dnd | overlap

record Conflict =
  kind :: ConflictKind
  eventToMoveId :: string
  targetDay :: Day
  overlappingEventId :: "string option"

datatype Decision = shift_dnd | shift_overlap | keep_overlap

record CalendarState =
  st_scheduleEvents :: "ScheduleEvent list"
  st_dndWindows :: "DNDWindow list"
  st_conflict :: "Conflict option"

text \<open>\<open>handleDrop\<close>: the do-not-disturb check comes first, then the first overlapping anchor.\<close>

definition handleDrop :: "CalendarState \<Rightarrow> string \<Rightarrow> Day \<Rightarrow> CalendarState" where
  "handleDrop st eid d =
     (case find (\<lambda>ev. event_id ev = eid) (st_scheduleEvents st) of
        None \<Rightarrow> st
      | Some eventToMove \<Rightarrow>
          if day eventToMove = d then st
          else if (case find (\<lambda>w. dnd_day w = d) (st_dndWindows st) of
                     None \<Rightarrow> False
                   | Some w \<Rightarrow> doTimesOverlap (startTime eventToMove) (endTime eventToMove)
                                (dnd_startTime w) (dnd_endTime w))
          then st\<lparr>st_conflict := Some \<lparr>kind = dnd, eventToMoveId = eid, targetDay = d,
                                     overlappingEventId = None\<rparr>\<rparr>
          else (case find (\<lambda>ev. day ev = d \<and> event_id ev \<noteq> eid \<and>
                              doTimesOverlap (startTime eventToMove) (endTime eventToMove)
                                (startTime ev) (endTime ev)) (st_scheduleEvents st) of
                  Some overlappingEvent \<Rightarrow>
                    st\<lparr>st_conflict := Some \<lparr>kind = overlap, eventToMoveId = eid, targetDay = d,
                                          overlappingEventId = Some (event_id overlappingEvent)\<rparr>\<rparr>
                | None \<Rightarrow> st\<lparr>st_scheduleEvents := moveEvent (st_scheduleEvents st) eid d None\<rparr>))"

definition resolveConflict :: "CalendarState \<Rightarrow> Decision \<Rightarrow> CalendarState" where
  "resolveConflict st decision =
     (case st_conflict st of
        None \<Rightarrow> st
      | Some c \<Rightarrow>
          (let evs =
             (case decision of
                keep_overlap \<Rightarrow> moveEvent (st_scheduleEvents st) (eventToMoveId c) (targetDay c) None
              | shift_overlap \<Rightarrow>
                  (case find (\<lambda>e. Some (event_id e) = overlappingEventId c) (st_scheduleEvents st) of
                     Some overlappingEvent \<Rightarrow>
                       moveEvent (st_scheduleEvents st) (eventToMoveId c) (targetDay c)
                         (Some (minutesToTime (timeToMinutes (endTime overlappingEvent))))
                   | None \<Rightarrow> st_scheduleEvents st)
              | shift_dnd \<Rightarrow>
                  (case find (\<lambda>w. dnd_day w = targetDay c) (st_dndWindows st) of
                     Some w \<Rightarrow>
                       moveEvent (st_scheduleEvents st) (eventToMoveId c) (targetDay c)
                         (Some (dnd_endTime w))
                   | None \<Rightarrow> st_scheduleEvents st))
           in st\<lparr>st_scheduleEvents := evs, st_conflict := None\<rparr>))"

text \<open>The duration of an anchor as \<open>moveEvent\<close> measures it: end minus start, in minutes.\<close>

definition durationOf :: "ScheduleEvent \<Rightarrow> jsnum" where
  "durationOf e = js_sub (timeToMinutes (endTime e)) (timeToMinutes (startTime e))"

section \<open>Reminder actions (CalendarPage.tsx, handleReminderAction)\<close>

datatype Action =
  act_done | act_snooze int | act_ignore | act_later | act_revert_exploration | act_pause
  | act_toggle_lock

text \<open>
  The snooze target of the ``later'' action: three hours from now, capped a quarter of an
  hour before the start of today's do-not-disturb window, that start being moved to
  tomorrow when it is already behind \<open>now\<close>; one hour from now when the result is not
  after \<open>now\<close>.
\<close>

definition laterTime :: "int \<Rightarrow> DNDWindow list \<Rightarrow> int" where
  "laterTime now dndWindows =
     (let laterTime0 = now + 3 * 60 * 60 * 1000;
          laterTime1 =
            (case find (\<lambda>d. dnd_day d = todayDay now) dndWindows of
               None \<Rightarrow> laterTime0
             | Some w \<Rightarrow>
                 if dnd_startTime w \<noteq> [] then
                   (case parseHM (dnd_startTime w) of
                      (Some h, Some m) \<Rightarrow>
                        (let dndStart0 = startOfDay now + h * 3600000 + m * 60000;
                             dndStart = (if dndStart0 < now then dndStart0 + msPerDay else dndStart0);
                             dndCap = dndStart - 15 * 60000
                         in if laterTime0 > dndCap then dndCap else laterTime0)
                    | _ \<Rightarrow> laterTime0)
                 else laterTime0)
      in if laterTime1 \<le> now then now + 60 * 60 * 1000 else laterTime1)"

definition applyAction :: "int \<Rightarrow> DNDWindow list \<Rightarrow> SmartReminder \<Rightarrow> Action \<Rightarrow> SmartReminder \<Rightarrow> SmartReminder" where
  "applyAction now dndWindows reminderToUpdate action r =
     (case action of
        act_snooze snoozeMinutes \<Rightarrow>
          r\<lparr>status := Snoozed,
            snoozedUntil := Some (now + snoozeMinutes * 60000),
            snoozeHistory := snoozeHistory r @ [snoozeMinutes],
            successHistory := successHistory r @ [snoozed],
            lastInteraction := Some now\<rparr>
      | act_done \<Rightarrow>
          r\<lparr>status := Done, successHistory := successHistory r @ [success],
            lastInteraction := Some now\<rparr>
      | act_pause \<Rightarrow>
          r\<lparr>status := Paused,
            snoozedUntil := Some (startOfDay now + msPerDay + 9 * 3600000)\<rparr>
      | act_toggle_lock \<Rightarrow>
          (let isNowLocked = \<not> isLocked reminderToUpdate
           in r\<lparr>isLocked := isNowLocked, allowExploration := Some (\<not> isNowLocked)\<rparr>)
      | act_ignore \<Rightarrow>
          r\<lparr>status := Ignored, successHistory := successHistory r @ [ignored],
            lastInteraction := Some now\<rparr>
      | act_later \<Rightarrow>
          r\<lparr>status := Snoozed,
            snoozedUntil := Some (laterTime now dndWindows),
            successHistory := successHistory r @ [snoozed],
            lastInteraction := Some now\<rparr>
      | act_revert_exploration \<Rightarrow>
          (case originalOffsetMinutes r of
             Some original \<Rightarrow>
               if isExploratory r
               then r\<lparr>originalOffsetMinutes := None, offsetMinutes := original,
                      isExploratory := False, status := Active, snoozedUntil := None\<rparr>
               else r
           | None \<Rightarrow> r))"

text \<open>The new reminder list; an unknown id leaves the list as it is.\<close>

definition handleReminderAction ::
  "int \<Rightarrow> DNDWindow list \<Rightarrow> SmartReminder list \<Rightarrow> string \<Rightarrow> Action \<Rightarrow> SmartReminder list" where
  "handleReminderAction now dndWindows smartReminders rid action =
     (case find (\<lambda>r. reminder_id r = rid) smartReminders of
        None \<Rightarrow> smartReminders
      | Some reminderToUpdate \<Rightarrow>
          map (\<lambda>r. if reminder_id r = rid
                    then applyAction now dndWindows reminderToUpdate action r else r)
              smartReminders)"

text \<open>
  The snooze target as the specification words it: now plus three hours, capped to 15
  minutes before today's do-not-disturb start if that cap is earlier, and now plus one hour
  if the capped time has already passed.
\<close>

definition laterTime_spec :: "int \<Rightarrow> DNDWindow list \<Rightarrow> int" where
  "laterTime_spec now dndWindows =
     (let threeHours = now + 3 * 60 * 60 * 1000;
          capped =
            (case find (\<lambda>d. dnd_day d = todayDay now) dndWindows of
               None \<Rightarrow> threeHours
             | Some w \<Rightarrow>
                 (case parseHM (dnd_startTime w) of
                    (Some h, Some m) \<Rightarrow>
                      (let cap = startOfDay now + h * 3600000 + m * 60000 - 15 * 60000
                       in if cap < threeHours then cap else threeHours)
                  | _ \<Rightarrow> threeHours))
      in if capped \<le> now then now + 60 * 60 * 1000 else capped)"

section \<open>Completion history and the personalised estimate (utils/timeAnalytics)\<close>

datatype EnergyTag = Creative | Tedious | Admin | Social | Errand

datatype UserDifficulty = Easier | Typical | Harder

text \<open>The numeric values of the \<open>UserDifficulty\<close> enum.\<close>

fun difficulty_value :: "UserDifficulty \<Rightarrow> real" where
  "difficulty_value Easier = 0.8"
| "difficulty_value Typical = 1.0"
| "difficulty_value Harder = 1.25"

text \<open>
  Durations are real numbers: the rounding error of the double-precision arithmetic, its
  infinities and \<open>NaN\<close> are outside the model. Where a blend falls exactly on a half, the
  double result can lie just below it and round the other way (five records of 12 minutes
  with four sub-steps and a task of one sub-step: 7.5 here, a little less in doubles).
  \<open>completedAt\<close> is the instant that its ISO string denotes, in milliseconds.
\<close>

record CompletionRecord =
  record_id :: string
  actualDurationMinutes :: real
  estimatedDurationMinutes :: real
  energyTag :: EnergyTag
  completedAt :: int
  subStepCount :: int
  dayOfWeek :: int
  difficulty :: UserDifficulty

type_synonym History = "EnergyTag \<Rightarrow> CompletionRecord list option"

definition MAX_RECORDS_PER_TAG :: nat where
  "MAX_RECORDS_PER_TAG = 100"

text \<open>\<open>history[tag] || []\<close>.\<close>

definition recordsFor :: "History \<Rightarrow> EnergyTag \<Rightarrow> CompletionRecord list" where
  "recordsFor history tag = (case history tag of None \<Rightarrow> [] | Some rs \<Rightarrow> rs)"

text \<open>
  \<open>getCompletionHistory\<close>: the stored value is \<open>None\<close> when the key is absent or does not
  parse; every tag is present in the result.
\<close>

definition getCompletionHistory :: "History option \<Rightarrow> History" where
  "getCompletionHistory stored =
     (case stored of
        Some parsed \<Rightarrow> (\<lambda>tag. Some (recordsFor parsed tag))
      | None \<Rightarrow> (\<lambda>tag. Some []))"

text \<open>
  \<open>addRecordToHistory\<close>: the record without its id is a record whose \<open>record_id\<close> is
  overwritten with \<open>cr-\<close> and the clock reading. The sort is the stable sort of the
  language, newest first. The result is both returned and stored.
\<close>

definition addRecordToHistory :: "History option \<Rightarrow> int \<Rightarrow> CompletionRecord \<Rightarrow> History" where
  "addRecordToHistory stored now record =
     (let history = getCompletionHistory stored;
          newRecord = record\<lparr>record_id := ''cr-'' @ js_String (Some now)\<rparr>;
          recordsForTag = recordsFor history (energyTag record) @ [newRecord]
      in if length recordsForTag > MAX_RECORDS_PER_TAG
         then history(energyTag record \<mapsto>
                take MAX_RECORDS_PER_TAG (sort_key (\<lambda>r. - completedAt r) recordsForTag))
         else history(energyTag record \<mapsto> recordsForTag))"

definition calculateEWMA :: "real list \<Rightarrow> real \<Rightarrow> real" where
  "calculateEWMA data alpha =
     (case data of
        [] \<Rightarrow> 0
      | d0 # _ \<Rightarrow> foldl (\<lambda>ewma v. alpha * v + (1 - alpha) * ewma) d0 data)"

text \<open>\<open>Math.round\<close>: the nearest integer, halves going up.\<close>

definition js_round :: "real \<Rightarrow> int" where
  "js_round x = \<lfloor>x + 1 / 2\<rfloor>"

datatype Confidence = low | medium | high

record Estimate =
  p50 :: int
  p90 :: int
  confidence :: Confidence

definition getPersonalizedEstimate ::
  "History \<Rightarrow> EnergyTag \<Rightarrow> int \<Rightarrow> real \<Rightarrow> Estimate option" where
  "getPersonalizedEstimate history tag newSubStepCount sensitivity =
     (let relevantRecords = recordsFor history tag
      in if length relevantRecords < 5 then None
         else
           (let adjustedDurations =
                  map (\<lambda>r. actualDurationMinutes r / difficulty_value (difficulty r)) relevantRecords;
                totalAdjustedMinutes = foldl (\<lambda>sum d. sum + d) 0 adjustedDurations;
                totalSubSteps = foldl (\<lambda>sum r. sum + subStepCount r) 0 relevantRecords
            in if totalSubSteps = 0 then None
               else
                 (let avgMinutesPerSubStep = totalAdjustedMinutes / of_int totalSubSteps;
                      complexityBasedEstimate = avgMinutesPerSubStep * of_int newSubStepCount;
                      sortedRecords = sort_key completedAt relevantRecords;
                      recentPerformanceEstimate =
                        calculateEWMA
                          (map (\<lambda>r. actualDurationMinutes r / difficulty_value (difficulty r))
                             sortedRecords)
                          sensitivity;
                      blendedP50 =
                        js_round (complexityBasedEstimate * 0.5 + recentPerformanceEstimate * 0.5);
                      variance =
                        foldl (\<lambda>sum sq. sum + sq) 0
                          (map (\<lambda>d. (d - of_int blendedP50) ^ 2) adjustedDurations)
                        / of_nat (length adjustedDurations);
                      stdDev = sqrt variance;
                      blendedP90 = js_round (of_int blendedP50 + 1.3 * stdDev);
                      confidence =
                        (if length relevantRecords < 10 then low
                         else if length relevantRecords < 25 then medium else high);
                      finalP50 = max 5 blendedP50;
                      finalP90 = max (finalP50 + 5) blendedP90
                  in Some \<lparr>p50 = finalP50, p90 = finalP90, confidence = confidence\<rparr>)))"

text \<open>The default learning sensitivity.\<close>

definition defaultSensitivity :: real where
  "defaultSensitivity = 0.3"

section \<open>Sample data\<close>

text \<open>A completion record of the Creative category at typical difficulty with three sub-steps.\<close>

definition sampleRecord :: "real \<Rightarrow> int \<Rightarrow> CompletionRecord" where
  "sampleRecord d t =
     \<lparr>record_id = ''cr-1'', actualDurationMinutes = d, estimatedDurationMinutes = 30,
      energyTag = Creative, completedAt = t, subStepCount = 3, dayOfWeek = 1,
      difficulty = Typical\<rparr>"

definition sampleHistory :: "CompletionRecord list \<Rightarrow> History" where
  "sampleHistory rs = (\<lambda>tag. if tag = Creative then Some rs else Some [])"

text \<open>The six records of the scenario, stored out of chronological order.\<close>

definition scenarioRecords :: "CompletionRecord list" where
  "scenarioRecords =
     [sampleRecord 60 3000, sampleRecord 50 1000, sampleRecord 55 2000,
      sampleRecord 58 4000, sampleRecord 57 6000, sampleRecord 62 5000]"

definition steadyRecords :: "CompletionRecord list" where
  "steadyRecords =
     [sampleRecord 30 1000, sampleRecord 30 2000, sampleRecord 30 3000,
      sampleRecord 30 4000, sampleRecord 30 5000]"

text \<open>A category at the retention cap.\<close>

definition fullRecords :: "CompletionRecord list" where
  "fullRecords = replicate 100 (sampleRecord 30 5000)"

text \<open>
  A Monday at 03:00 (day 4 of the epoch), an overnight do-not-disturb window for Mondays,
  an anchor late on Monday evening and a reminder ten minutes before it.
\<close>

definition mondayMorning :: int where
  "mondayMorning = 4 * 86400000 + 3 * 3600000"

definition nightWindow :: DNDWindow where
  "nightWindow = \<lparr>dnd_day = Monday, dnd_startTime = ''23:00'', dnd_endTime = ''07:00''\<rparr>"

definition lateAnchor :: ScheduleEvent where
  "lateAnchor =
     \<lparr>event_id = ''a1'', day = Monday, title = ''Wind down'', startTime = ''23:40'',
      endTime = ''23:55''\<rparr>"

definition lateReminder :: SmartReminder where
  "lateReminder =
     \<lparr>reminder_id = ''r1'', eventId = ''a1'', offsetMinutes = - 10, message = ''Dim the lights'',
      isLocked = False, isExploratory = False, status = Active, snoozeHistory = [],
      snoozedUntil = None, successHistory = [], originalOffsetMinutes = None,
      lastInteraction = None, allowExploration = None\<rparr>"

text \<open>The same reminder, snoozed until an hour before the clock reading.\<close>

definition staleReminder :: SmartReminder where
  "staleReminder = lateReminder\<lparr>status := Snoozed, snoozedUntil := Some (mondayMorning - 3600000)\<rparr>"

text \<open>A morning window, and an anchor that starts exactly when the window ends.\<close>

definition morningWindow :: DNDWindow where
  "morningWindow = \<lparr>dnd_day = Monday, dnd_startTime = ''08:00'', dnd_endTime = ''09:00''\<rparr>"

definition nineAnchor :: ScheduleEvent where
  "nineAnchor =
     \<lparr>event_id = ''a1'', day = Monday, title = ''Stand-up'', startTime = ''09:00'',
      endTime = ''09:30''\<rparr>"

text \<open>Noon of the same Monday.\<close>

definition mondayNoon :: int where
  "mondayNoon = 4 * 86400000 + 12 * 3600000"

text \<open>Nine o'clock of the same Monday, when the morning window has just ended.\<close>

definition mondayNine :: int where
  "mondayNine = 4 * 86400000 + 9 * 3600000"

text \<open>
  A two-hour anchor on Monday morning, and an anchor that fills Tuesday from 09:00 to
  23:00; no conflict is pending.
\<close>

definition movingAnchor :: ScheduleEvent where
  "movingAnchor =
     \<lparr>event_id = ''a1'', day = Monday, title = ''Deep work'', startTime = ''10:00'',
      endTime = ''12:00''\<rparr>"

definition blockingAnchor :: ScheduleEvent where
  "blockingAnchor =
     \<lparr>event_id = ''b1'', day = Tuesday, title = ''Conference'', startTime = ''09:00'',
      endTime = ''23:00''\<rparr>"

definition dragState :: CalendarState where
  "dragState =
     \<lparr>st_scheduleEvents = [movingAnchor, blockingAnchor], st_dndWindows = [],
      st_conflict = None\<rparr>"

section \<open>Properties of the time-of-day helpers\<close>

lemma digit_val_lt: "is_digit c \<Longrightarrow> digit_val c < 10"
  by (auto simp: is_digit_def digit_val_def)

lemma digit_char_val: "is_digit c \<Longrightarrow> digit_char (digit_val c) = c"
  by (auto simp: is_digit_def digit_val_def digit_char_def)

lemma not_space_digit: "is_digit c \<Longrightarrow> \<not> is_space c"
  by (auto simp: is_digit_def is_space_def)

lemma not_colon_digit: "is_digit c \<Longrightarrow> c \<noteq> CHR '':''"
  by (auto simp: is_digit_def)

lemma not_sign_digit: "is_digit c \<Longrightarrow> c \<noteq> CHR ''-'' \<and> c \<noteq> CHR ''+''"
  by (auto simp: is_digit_def)

lemma js_Number_two:
  "is_digit a \<Longrightarrow> is_digit b \<Longrightarrow> js_Number [a, b] = Some (int (10 * digit_val a + digit_val b))"
  by (simp add: js_Number_def js_trim_def not_space_digit not_sign_digit digits_val_def)

lemma digits_of_nat_small: "n < 10 \<Longrightarrow> digits_of_nat n = [digit_char n]"
  by (subst digits_of_nat.simps) simp

lemma digits_of_nat_two:
  "10 \<le> n \<Longrightarrow> n < 100 \<Longrightarrow> digits_of_nat n = [digit_char (n div 10), digit_char (n mod 10)]"
  by (subst digits_of_nat.simps) (simp add: digits_of_nat_small)

lemma pad2_two:
  assumes "n < 100"
  shows "padStart2 (js_String (Some (int n))) = [digit_char (n div 10), digit_char (n mod 10)]"
proof (cases "n < 10")
  case True
  then show ?thesis
    by (simp add: padStart2_def js_String_def digits_of_nat_small digit_char_def)
next
  case False
  with assms show ?thesis
    by (simp add: padStart2_def js_String_def digits_of_nat_two)
qed

lemma split_colon_digits2:
  "is_digit a \<Longrightarrow> is_digit b \<Longrightarrow> is_digit c \<Longrightarrow> is_digit d \<Longrightarrow>
   split_colon [a, b, CHR '':'', c, d] = [[a, b], [c, d]]"
  by (simp add: not_colon_digit)

text \<open>A well-formed time string denotes the minute \<open>60 * HH + MM\<close>.\<close>

lemma timeToMinutes_valid:
  assumes "valid_time t"
  obtains h1 h2 m1 m2 where "t = [h1, h2, CHR '':'', m1, m2]"
    "is_digit h1" "is_digit h2" "is_digit m1" "is_digit m2"
    "10 * digit_val h1 + digit_val h2 \<le> 23" "10 * digit_val m1 + digit_val m2 \<le> 59"
    "timeToMinutes t =
       Some (int ((10 * digit_val h1 + digit_val h2) * 60 + (10 * digit_val m1 + digit_val m2)))"
proof -
  from assms obtain h1 h2 m1 m2 where t: "t = [h1, h2, CHR '':'', m1, m2]"
    and d: "is_digit h1" "is_digit h2" "is_digit m1" "is_digit m2"
    and r: "10 * digit_val h1 + digit_val h2 \<le> 23" "10 * digit_val m1 + digit_val m2 \<le> 59"
    by (auto simp: valid_time_def split: list.splits)
  have "timeToMinutes t =
      Some (int ((10 * digit_val h1 + digit_val h2) * 60 + (10 * digit_val m1 + digit_val m2)))"
    unfolding t timeToMinutes_def
    by (simp add: split_colon_digits2 d js_Number_two js_add_def js_mul_def del: split_colon.simps)
  with t d r that show ?thesis by blast
qed

lemma timeToMinutes_valid_range:
  assumes "valid_time t"
  obtains n where "timeToMinutes t = Some n" "0 \<le> n" "n < 1440"
proof -
  from assms obtain h1 h2 m1 m2 where
    r: "10 * digit_val h1 + digit_val h2 \<le> 23" "10 * digit_val m1 + digit_val m2 \<le> 59"
    and v: "timeToMinutes t =
       Some (int ((10 * digit_val h1 + digit_val h2) * 60 + (10 * digit_val m1 + digit_val m2)))"
    by (rule timeToMinutes_valid)
  have "H * 60 + M < 1440" if "H \<le> 23" "M \<le> 59" for H M :: nat
    using that by simp
  from this[OF r]
  have "(10 * digit_val h1 + digit_val h2) * 60 + (10 * digit_val m1 + digit_val m2) < 1440" .
  then have "int ((10 * digit_val h1 + digit_val h2) * 60 + (10 * digit_val m1 + digit_val m2)) < 1440"
    by linarith
  with v that show ?thesis by (metis of_nat_0_le_iff)
qed

lemma minutesToTime_small:
  assumes "h \<le> 23" "m \<le> 59"
  shows "minutesToTime (Some (int (h * 60 + m))) =
    [digit_char (h div 10), digit_char (h mod 10), CHR '':'',
     digit_char (m div 10), digit_char (m mod 10)]"
proof -
  have a: "int (h * 60 + m) div 60 = int h" using assms by simp
  have b: "int (h * 60 + m) mod 60 = int m" using assms by simp
  have c: "js_rem_int (int h) 24 = int h" using assms by (simp add: js_rem_int_def)
  have d: "js_rem_int (int (h * 60 + m)) 60 = int m"
    using b by (simp add: js_rem_int_def del: of_nat_add of_nat_mult)
  show ?thesis using assms
    by (simp add: minutesToTime_def js_floor_div_def js_rem_def a c d pad2_two Let_def
        del: of_nat_add of_nat_mult)
qed

lemma two_digit_div_mod:
  assumes "is_digit a" "is_digit b"
  shows "(10 * digit_val a + digit_val b) div 10 = digit_val a"
    and "(10 * digit_val a + digit_val b) mod 10 = digit_val b"
  using digit_val_lt[OF assms(2)] by simp_all

lemma minutesToTime_timeToMinutes:
  assumes "valid_time t"
  shows "minutesToTime (timeToMinutes t) = t"
proof -
  from assms obtain h1 h2 m1 m2 where t: "t = [h1, h2, CHR '':'', m1, m2]"
    and d: "is_digit h1" "is_digit h2" "is_digit m1" "is_digit m2"
    and r: "10 * digit_val h1 + digit_val h2 \<le> 23" "10 * digit_val m1 + digit_val m2 \<le> 59"
    and v: "timeToMinutes t =
      Some (int ((10 * digit_val h1 + digit_val h2) * 60 + (10 * digit_val m1 + digit_val m2)))"
    by (rule timeToMinutes_valid)
  have "minutesToTime (timeToMinutes t) =
      [digit_char ((10 * digit_val h1 + digit_val h2) div 10),
       digit_char ((10 * digit_val h1 + digit_val h2) mod 10),
       CHR '':'',
       digit_char ((10 * digit_val m1 + digit_val m2) div 10),
       digit_char ((10 * digit_val m1 + digit_val m2) mod 10)]"
    unfolding v by (rule minutesToTime_small[OF r])
  also have "\<dots> = t"
    by (simp only: two_digit_div_mod[OF d(1) d(2)] two_digit_div_mod[OF d(3) d(4)]
        digit_char_val[OF d(1)] digit_char_val[OF d(2)] digit_char_val[OF d(3)]
        digit_char_val[OF d(4)] t)
  finally show ?thesis .
qed

lemma minutesToTime_wraps_nonneg:
  assumes n: "0 \<le> n"
  shows "minutesToTime (Some n) = minutesToTime (Some (n mod 1440))"
proof -
  have "n mod 1440 = 60 * (n div 60 mod 24) + n mod 60"
    using zmod_zmult2_eq[of 24 n 60] by simp
  then have a: "(n mod 1440) div 60 = (n div 60) mod 24"
    by simp
  have b: "(n mod 1440) mod 60 = n mod 60"
    by (simp add: mod_mod_cancel)
  have c: "0 \<le> n div 60" using n by simp
  show ?thesis using n c
    by (simp add: minutesToTime_def js_floor_div_def js_rem_def js_rem_int_def a b Let_def)
qed

text \<open>
  C8. \<open>doTimesOverlap a b c d\<close> holds exactly when the start of the first interval is
  below the end of the second and the end of the first is above the start of the second,
  both read by \<open>timeToMinutes\<close>. Intervals that only touch do not overlap: an interval ending
  where the other starts never does, and 09:00--10:00 against 10:00--11:00 in particular.
  The predicate is symmetric in the two intervals.
\<close>

theorem doTimesOverlap_half_open_symmetric:
  "(doTimesOverlap a b c d \<longleftrightarrow>
      js_lt (timeToMinutes a) (timeToMinutes d) \<and> js_gt (timeToMinutes b) (timeToMinutes c))
   \<and> \<not> doTimesOverlap a b b d
   \<and> \<not> doTimesOverlap ''09:00'' ''10:00'' ''10:00'' ''11:00''
   \<and> doTimesOverlap a b c d = doTimesOverlap c d a b"
proof -
  have touch: "\<not> js_gt x x" for x
    by (simp add: js_gt_def js_lt_def split: option.splits)
  have t1: "timeToMinutes ''10:00'' = Some 600"
    by (simp add: timeToMinutes_def js_Number_def js_trim_def is_space_def is_digit_def
        digits_val_def digit_val_def js_add_def js_mul_def)
  show ?thesis
    unfolding doTimesOverlap_def Let_def
    by (auto simp: touch t1 js_gt_def)
qed

text \<open>
  C9. For every well-formed time string \<open>t\<close> (two digits, a colon, two digits, at most
  23:59), \<open>minutesToTime (timeToMinutes t) = t\<close>; and \<open>minutesToTime\<close> wraps its argument
  modulo 1440, for every minute count from zero up, the arguments its callers pass.
\<close>

theorem minutesToTime_roundtrip_and_wrap:
  "(valid_time t \<longrightarrow> minutesToTime (timeToMinutes t) = t)
   \<and> (0 \<le> n \<longrightarrow> minutesToTime (Some n) = minutesToTime (Some (n mod 1440)))"
  using minutesToTime_timeToMinutes minutesToTime_wraps_nonneg by blast

theorem minutesToTime_roundtrip_and_wrap_witness:
  "valid_time ''09:30'' \<and> minutesToTime (timeToMinutes ''09:30'') = ''09:30''
   \<and> (0::int) \<le> 1500 \<and> minutesToTime (Some 1500) = minutesToTime (Some (1500 mod 1440))"
proof -
  have v: "valid_time ''09:30''"
    by (simp add: valid_time_def is_digit_def digit_val_def)
  have n: "(0::int) \<le> 1500" by simp
  from minutesToTime_roundtrip_and_wrap[of "''09:30''" 1500] v n show ?thesis
    by blast
qed

text \<open>
  Below zero the remainder operator keeps the sign of its argument, and \<open>minutesToTime\<close>
  does not reduce it: \<open>minutesToTime(-1)\<close> is \<open>-1:-1\<close>, where 1439 gives \<open>23:59\<close>.
\<close>

lemma minutesToTime_negative:
  "minutesToTime (Some (- 1)) = ''-1:-1'' \<and> minutesToTime (Some ((- 1) mod 1440)) = ''23:59''
   \<and> minutesToTime (Some (- 1)) \<noteq> minutesToTime (Some ((- 1) mod 1440))"
proof -
  have d1: "digits_of_nat 1 = ''1''"
    by (simp add: digits_of_nat_small digit_char_def)
  have a: "minutesToTime (Some (- 1)) = ''-1:-1''"
    by (simp add: minutesToTime_def js_floor_div_def js_rem_def js_rem_int_def Let_def
        js_String_def padStart2_def d1 digit_char_def)
  have "minutesToTime (Some (int (23 * 60 + 59))) = ''23:59''"
    by (subst minutesToTime_small) (simp_all add: digit_char_def)
  then have b: "minutesToTime (Some ((- 1) mod 1440)) = ''23:59''"
    by simp
  show ?thesis unfolding a b by simp
qed

section \<open>Properties of the personalised estimate\<close>

lemma foldl_add_sum_list: "foldl (\<lambda>s x. s + f x) a xs = a + sum_list (map f xs)"
  for a :: "'a::comm_monoid_add"
  by (induction xs arbitrary: a) (simp_all add: add.assoc)

lemma foldl_plus_sum_list: "foldl (\<lambda>s d. s + d) a xs = a + sum_list xs"
  for a :: "'a::comm_monoid_add"
  using foldl_add_sum_list[of "\<lambda>x. x" a xs] by simp

lemma sum_list_sort_key: "sum_list (map f (sort_key k xs)) = sum_list (map f xs)"
  for f :: "'a \<Rightarrow> 'b::comm_monoid_add"
proof -
  have "mset (sort_key k xs) = mset xs" by simp
  then have "mset (map f (sort_key k xs)) = mset (map f xs)" by (metis mset_map)
  then show ?thesis by (metis sum_mset_sum_list)
qed

text \<open>
  C2. \<open>getPersonalizedEstimate\<close> returns null exactly when the target category holds fewer
  than five records or the sub-step counts of its records sum to zero; on every other
  input it returns a result. The function is total: no input makes it fail.
\<close>

theorem getPersonalizedEstimate_null_iff:
  "getPersonalizedEstimate history tag n s = None \<longleftrightarrow>
     length (recordsFor history tag) < 5
     \<or> sum_list (map subStepCount (recordsFor history tag)) = 0"
  by (simp add: getPersonalizedEstimate_def Let_def foldl_add_sum_list)

text \<open>
  C3. With the default sensitivity 0.3, a Creative category of exactly six records whose
  actual durations in chronological order are 50, 55, 60, 58, 62, 57, all at typical
  difficulty with three sub-steps, gives for a Creative task of three sub-steps a result
  whose \<open>p50\<close> is 57, inside the range 57 to 60, and whose confidence is low.
\<close>

theorem creative_scenario_estimate:
  assumes h: "history Creative = Some rs"
    and d: "map actualDurationMinutes (sort_key completedAt rs) = [50, 55, 60, 58, 62, 57]"
    and t: "\<forall>r \<in> set rs. difficulty r = Typical \<and> subStepCount r = 3"
  shows "\<exists>e. getPersonalizedEstimate history Creative 3 defaultSensitivity = Some e
           \<and> p50 e = 57 \<and> 57 \<le> p50 e \<and> p50 e \<le> 60 \<and> confidence e = low"
proof -
  have rf: "recordsFor history Creative = rs" using h by (simp add: recordsFor_def)
  have len: "length rs = 6"
    using arg_cong[OF d, of length] by simp
  have adj_rs: "map (\<lambda>r. actualDurationMinutes r / difficulty_value (difficulty r)) rs
      = map actualDurationMinutes rs"
    using t by simp
  have adj_sorted:
    "map (\<lambda>r. actualDurationMinutes r / difficulty_value (difficulty r)) (sort_key completedAt rs)
       = [50, 55, 60, 58, 62, 57]"
  proof -
    have "map (\<lambda>r. actualDurationMinutes r / difficulty_value (difficulty r))
            (sort_key completedAt rs)
        = map actualDurationMinutes (sort_key completedAt rs)"
      using t by (intro map_cong) simp_all
    with d show ?thesis by simp
  qed
  have total: "sum_list (map actualDurationMinutes rs) = 342"
    using sum_list_sort_key[of actualDurationMinutes completedAt rs] d by simp
  have "map subStepCount rs = replicate (length rs) 3"
    using t by (simp add: map_replicate_const[symmetric] cong: map_cong)
  then have steps: "sum_list (map subStepCount rs) = 18"
    by (simp add: len sum_list_replicate)
  have ewma: "calculateEWMA [50, 55, 60, 58, 62, 57] defaultSensitivity = 57.18515"
    by (simp add: calculateEWMA_def defaultSensitivity_def)
  have blend: "js_round ((342 / 18 * 3) * 0.5 + 57.18515 * 0.5) = 57"
    by (simp add: js_round_def)
  show ?thesis
    by (simp add: getPersonalizedEstimate_def rf len Let_def foldl_add_sum_list
        foldl_plus_sum_list adj_rs adj_sorted total steps ewma blend[simplified]
        del: sort_key_simps)
qed

theorem creative_scenario_estimate_witness:
  "sampleHistory scenarioRecords Creative = Some scenarioRecords
   \<and> map actualDurationMinutes (sort_key completedAt scenarioRecords) = [50, 55, 60, 58, 62, 57]
   \<and> list_all (\<lambda>r. difficulty r = Typical \<and> subStepCount r = 3) scenarioRecords
   \<and> (\<exists>e. getPersonalizedEstimate (sampleHistory scenarioRecords) Creative 3 defaultSensitivity
              = Some e
           \<and> p50 e = 57 \<and> 57 \<le> p50 e \<and> p50 e \<le> 60 \<and> confidence e = low)"
proof -
  have h: "sampleHistory scenarioRecords Creative = Some scenarioRecords"
    by (simp add: sampleHistory_def)
  have d: "map actualDurationMinutes (sort_key completedAt scenarioRecords)
      = [50, 55, 60, 58, 62, 57]"
    by (simp add: scenarioRecords_def sampleRecord_def)
  have t: "\<forall>r \<in> set scenarioRecords. difficulty r = Typical \<and> subStepCount r = 3"
    by (simp add: scenarioRecords_def sampleRecord_def)
  from creative_scenario_estimate[of "sampleHistory scenarioRecords" scenarioRecords, OF h d t]
    h d t
  show ?thesis unfolding list_all_iff by blast
qed

text \<open>
  C4. Every result of \<open>getPersonalizedEstimate\<close>, whatever the history holds, has
  \<open>p50\<close> at least 5 and \<open>p90\<close> at least \<open>p50 + 5\<close>.
\<close>

theorem estimate_floors:
  "getPersonalizedEstimate history tag n s = Some e \<Longrightarrow> p50 e \<ge> 5 \<and> p90 e \<ge> p50 e + 5"
  by (auto simp: getPersonalizedEstimate_def Let_def split: if_splits)

lemma steady_estimate:
  "getPersonalizedEstimate (sampleHistory steadyRecords) Creative 3 defaultSensitivity
   = Some \<lparr>p50 = 30, p90 = 35, confidence = low\<rparr>"
  by (simp add: getPersonalizedEstimate_def recordsFor_def sampleHistory_def steadyRecords_def
      sampleRecord_def Let_def calculateEWMA_def defaultSensitivity_def js_round_def)

theorem estimate_floors_witness:
  "getPersonalizedEstimate (sampleHistory steadyRecords) Creative 3 defaultSensitivity
     = Some \<lparr>p50 = 30, p90 = 35, confidence = low\<rparr>
   \<and> p50 \<lparr>p50 = 30, p90 = 35, confidence = low\<rparr> \<ge> 5
   \<and> p90 \<lparr>p50 = 30, p90 = 35, confidence = low\<rparr>
       \<ge> p50 \<lparr>p50 = 30, p90 = 35, confidence = low\<rparr> + 5"
  using estimate_floors[OF steady_estimate] steady_estimate by blast

section \<open>Properties of the completion history\<close>

lemma take_sorted_evicts:
  fixes k :: "'a \<Rightarrow> int"
  assumes len: "length cs = Suc n"
  shows "\<exists>evicted. mset (take n (sort_key (\<lambda>r. - k r) cs)) + {#evicted#} = mset cs
           \<and> (\<forall>x \<in> set cs. k evicted \<le> k x)"
proof -
  let ?ss = "sort_key (\<lambda>r. - k r) cs"
  have l: "length ?ss = Suc n" using len by simp
  then have split: "?ss = take n ?ss @ [?ss ! n]"
    by (metis lessI take_Suc_conv_app_nth take_all order_refl)
  have "mset ?ss = mset cs" by simp
  with split have m: "mset (take n ?ss) + {#?ss ! n#} = mset cs"
    by (metis mset.simps(1) mset.simps(2) mset_append add_mset_add_single union_mset_add_mset_right add.right_neutral)
  have srt: "sorted (map (\<lambda>r. - k r) ?ss)" by (rule sorted_sort_key)
  have "k (?ss ! n) \<le> k x" if "x \<in> set cs" for x
  proof -
    from that have "x \<in> set ?ss" by simp
    then obtain i where i: "i < length ?ss" "?ss ! i = x"
      unfolding in_set_conv_nth by blast
    with l have "i \<le> n" by simp
    with srt l have "map (\<lambda>r. - k r) ?ss ! i \<le> map (\<lambda>r. - k r) ?ss ! n"
      by (intro sorted_nth_mono) simp_all
    with i l show ?thesis by simp
  qed
  with m show ?thesis by blast
qed

text \<open>
  C5. Appending a record to a category that holds exactly 100 records leaves exactly 100
  records, and the one record of the 101 candidates that is dropped has the least
  \<open>completedAt\<close> among them. Appending to a category of fewer than 100 records drops
  nothing.
\<close>

theorem addRecordToHistory_retention:
  "(length (recordsFor (getCompletionHistory stored) (energyTag record)) = 100 \<longrightarrow>
      length (recordsFor (addRecordToHistory stored now record) (energyTag record)) = 100
      \<and> (\<exists>evicted.
            mset (recordsFor (addRecordToHistory stored now record) (energyTag record)) + {#evicted#}
              = mset (recordsFor (getCompletionHistory stored) (energyTag record)
                      @ [record\<lparr>record_id := ''cr-'' @ js_String (Some now)\<rparr>])
            \<and> (\<forall>x \<in> set (recordsFor (getCompletionHistory stored) (energyTag record)
                      @ [record\<lparr>record_id := ''cr-'' @ js_String (Some now)\<rparr>]).
                  completedAt evicted \<le> completedAt x)))
   \<and> (length (recordsFor (getCompletionHistory stored) (energyTag record)) < 100 \<longrightarrow>
        recordsFor (addRecordToHistory stored now record) (energyTag record)
          = recordsFor (getCompletionHistory stored) (energyTag record)
            @ [record\<lparr>record_id := ''cr-'' @ js_String (Some now)\<rparr>])"
proof (intro conjI impI)
  let ?old = "recordsFor (getCompletionHistory stored) (energyTag record)"
  let ?cs = "?old @ [record\<lparr>record_id := ''cr-'' @ js_String (Some now)\<rparr>]"
  {
    assume full: "length ?old = 100"
    then have r: "recordsFor (addRecordToHistory stored now record) (energyTag record)
        = take 100 (sort_key (\<lambda>r. - completedAt r) ?cs)"
      by (simp add: addRecordToHistory_def Let_def MAX_RECORDS_PER_TAG_def recordsFor_def)
    from full have len: "length ?cs = Suc 100" by simp
    show "length (recordsFor (addRecordToHistory stored now record) (energyTag record)) = 100"
      unfolding r using len by simp
    show "\<exists>evicted.
            mset (recordsFor (addRecordToHistory stored now record) (energyTag record)) + {#evicted#}
              = mset ?cs \<and> (\<forall>x \<in> set ?cs. completedAt evicted \<le> completedAt x)"
      unfolding r by (rule take_sorted_evicts[OF len])
  }
  {
    assume "length ?old < 100"
    then show "recordsFor (addRecordToHistory stored now record) (energyTag record) = ?cs"
      by (simp add: addRecordToHistory_def Let_def MAX_RECORDS_PER_TAG_def recordsFor_def)
  }
qed


lemma energyTag_sampleRecord: "energyTag (sampleRecord d t) = Creative"
  by (simp add: sampleRecord_def)

lemma recordsFor_stored_sample:
  "recordsFor (getCompletionHistory (Some (sampleHistory rs))) Creative = rs"
  by (simp add: getCompletionHistory_def recordsFor_def sampleHistory_def)

theorem addRecordToHistory_retention_witness:
  "length (recordsFor (getCompletionHistory (Some (sampleHistory fullRecords))) Creative) = 100
   \<and> length (recordsFor (addRecordToHistory (Some (sampleHistory fullRecords)) 7000
                 (sampleRecord 40 1000)) Creative) = 100
   \<and> length (recordsFor (getCompletionHistory (Some (sampleHistory steadyRecords))) Creative) < 100
   \<and> recordsFor (addRecordToHistory (Some (sampleHistory steadyRecords)) 7000
         (sampleRecord 40 1000)) Creative
       = steadyRecords @ [(sampleRecord 40 1000)\<lparr>record_id := ''cr-'' @ js_String (Some 7000)\<rparr>]"
proof -
  have a: "length (recordsFor (getCompletionHistory (Some (sampleHistory fullRecords))) Creative) = 100"
    by (simp add: recordsFor_stored_sample fullRecords_def)
  have b: "length (recordsFor (getCompletionHistory (Some (sampleHistory steadyRecords))) Creative) < 100"
    by (simp add: recordsFor_stored_sample steadyRecords_def)
  from addRecordToHistory_retention[of "Some (sampleHistory fullRecords)" "sampleRecord 40 1000" 7000] a
  have c: "length (recordsFor (addRecordToHistory (Some (sampleHistory fullRecords)) 7000
                 (sampleRecord 40 1000)) Creative) = 100"
    unfolding energyTag_sampleRecord by blast
  from addRecordToHistory_retention[of "Some (sampleHistory steadyRecords)" "sampleRecord 40 1000" 7000] b
  have d: "recordsFor (addRecordToHistory (Some (sampleHistory steadyRecords)) 7000
         (sampleRecord 40 1000)) Creative
       = steadyRecords @ [(sampleRecord 40 1000)\<lparr>record_id := ''cr-'' @ js_String (Some 7000)\<rparr>]"
    unfolding energyTag_sampleRecord recordsFor_stored_sample by blast
  from a b c d show ?thesis by blast
qed

section \<open>Properties of the active reminder list\<close>

lemma set_insert_by: "set (insert_by gt x xs) = insert x (set xs)"
  by (induction xs) auto

lemma set_sort_by: "set (sort_by gt xs) = set xs"
  unfolding sort_by_def by (induction xs) (simp_all add: set_insert_by)

lemma set_map_filter_Some: "set (List.map_filter f xs) = {y. \<exists>x \<in> set xs. f x = Some y}"
  by (induction xs) (auto split: option.splits)

lemma set_activeReminders:
  "\<not> pauseInEffect now pauseUntil \<Longrightarrow>
   set (activeReminders now pauseUntil rs evs dnds) =
     {a. \<exists>r \<in> set rs. (status r = Active \<or> status r = Snoozed \<or> status r = Paused)
            \<and> resolveReminder now evs dnds r = Some a}"
  by (auto simp: activeReminders_def set_sort_by set_map_filter_Some)

lemma resolveReminder_reminder: "resolveReminder now evs dnds r = Some a \<Longrightarrow> reminder a = r"
  by (auto simp: resolveReminder_def Let_def split: option.splits if_splits prod.splits)

text \<open>
  C10. With no pause in effect and the anchor resolved, a reminder whose status is Snoozed
  or Paused and whose \<open>snoozedUntil\<close> lies in the past is in the active list, its trigger
  being that \<open>snoozedUntil\<close> put through the do-not-disturb step. A Snoozed or Paused
  reminder is never dropped as stale; an Active one whose trigger is before \<open>now\<close> is.
\<close>

theorem stale_drop_only_for_active:
  assumes np: "\<not> pauseInEffect now pauseUntil"
    and r: "r \<in> set rs"
    and ev: "find (\<lambda>e. event_id e = eventId r) evs = Some ev"
  shows "((status r = Snoozed \<or> status r = Paused) \<and> snoozedUntil r = Some t \<and> t < now \<longrightarrow>
            \<lparr>reminder = r, event = ev,
             triggerTime = fst (dndShift now dnds (Some t)),
             shiftedReason = snd (dndShift now dnds (Some t))\<rparr>
              \<in> set (activeReminders now pauseUntil rs evs dnds))
       \<and> (status r = Snoozed \<or> status r = Paused \<longrightarrow>
            (\<exists>a \<in> set (activeReminders now pauseUntil rs evs dnds). reminder a = r))
       \<and> (status r = Active \<and> js_lt (baseTrigger now ev r) (Some now) \<longrightarrow>
            (\<forall>a \<in> set (activeReminders now pauseUntil rs evs dnds). reminder a \<noteq> r))"
proof (intro conjI impI)
  have kept: "resolveReminder now evs dnds r =
      Some \<lparr>reminder = r, event = ev,
             triggerTime = fst (dndShift now dnds (baseTrigger now ev r)),
             shiftedReason = snd (dndShift now dnds (baseTrigger now ev r))\<rparr>"
    if "status r = Snoozed \<or> status r = Paused"
    using that ev by (auto simp: resolveReminder_def Let_def split: prod.splits)
  {
    assume a: "(status r = Snoozed \<or> status r = Paused) \<and> snoozedUntil r = Some t \<and> t < now"
    then have b: "baseTrigger now ev r = Some t"
      by (auto simp: baseTrigger_def Let_def split: prod.splits)
    from a r kept show "\<lparr>reminder = r, event = ev,
             triggerTime = fst (dndShift now dnds (Some t)),
             shiftedReason = snd (dndShift now dnds (Some t))\<rparr>
              \<in> set (activeReminders now pauseUntil rs evs dnds)"
      unfolding set_activeReminders[OF np] b by blast
  }
  {
    assume s: "status r = Snoozed \<or> status r = Paused"
    with r kept show "\<exists>a \<in> set (activeReminders now pauseUntil rs evs dnds). reminder a = r"
      unfolding set_activeReminders[OF np] by fastforce
  }
  {
    assume a: "status r = Active \<and> js_lt (baseTrigger now ev r) (Some now)"
    then have "resolveReminder now evs dnds r = None"
      using ev by (simp add: resolveReminder_def Let_def)
    then show "\<forall>a \<in> set (activeReminders now pauseUntil rs evs dnds). reminder a \<noteq> r"
      unfolding set_activeReminders[OF np] using resolveReminder_reminder by fastforce
  }
qed

theorem stale_drop_only_for_active_witness:
  "\<not> pauseInEffect mondayMorning None
   \<and> staleReminder \<in> set [staleReminder]
   \<and> find (\<lambda>e. event_id e = eventId staleReminder) [lateAnchor] = Some lateAnchor
   \<and> status staleReminder = Snoozed
   \<and> snoozedUntil staleReminder = Some (mondayMorning - 3600000)
   \<and> mondayMorning - 3600000 < mondayMorning
   \<and> \<lparr>reminder = staleReminder, event = lateAnchor,
       triggerTime = fst (dndShift mondayMorning [nightWindow] (Some (mondayMorning - 3600000))),
       shiftedReason = snd (dndShift mondayMorning [nightWindow] (Some (mondayMorning - 3600000)))\<rparr>
      \<in> set (activeReminders mondayMorning None [staleReminder] [lateAnchor] [nightWindow])"
proof -
  have np: "\<not> pauseInEffect mondayMorning None" by (simp add: pauseInEffect_def)
  have r: "staleReminder \<in> set [staleReminder]" by simp
  have ev: "find (\<lambda>e. event_id e = eventId staleReminder) [lateAnchor] = Some lateAnchor"
    by (simp add: staleReminder_def lateReminder_def lateAnchor_def)
  have st: "status staleReminder = Snoozed" by (simp add: staleReminder_def)
  have su: "snoozedUntil staleReminder = Some (mondayMorning - 3600000)"
    by (simp add: staleReminder_def)
  have lt: "mondayMorning - 3600000 < mondayMorning" by simp
  from stale_drop_only_for_active[OF np r ev, of "mondayMorning - 3600000" "[nightWindow]"]
    np r ev st su lt
  show ?thesis by blast
qed

lemmas parse_defs = parseHM_def js_Number_def js_trim_def is_space_def is_digit_def
  digits_val_def digit_val_def

lemma todayDay_mondayMorning: "todayDay mondayMorning = Monday"
  by (simp add: todayDay_def getDay_def mondayMorning_def msPerDay_def DAYS_OF_WEEK_def)

lemma startOfDay_mondayMorning: "startOfDay mondayMorning = 345600000"
  by (simp add: startOfDay_def mondayMorning_def msPerDay_def)

lemma dndBounds_night: "dndBounds mondayMorning nightWindow = Some (342000000, 370800000)"
  by (simp add: dndBounds_def nightWindow_def parse_defs startOfDay_def Let_def
      mondayMorning_def msPerDay_def)

lemma dndBounds_morning: "dndBounds mondayMorning morningWindow = Some (374400000, 378000000)"
  by (simp add: dndBounds_def morningWindow_def parse_defs startOfDay_mondayMorning Let_def)

lemma baseTrigger_late: "baseTrigger mondayMorning lateAnchor lateReminder = Some 430200000"
  by (simp add: baseTrigger_def lateAnchor_def lateReminder_def parse_defs setHours_def
      startOfDay_mondayMorning js_add_def Let_def)

text \<open>
  C1 does not hold of the code. On a Monday at 03:00, with the Monday window 23:00 to 07:00,
  an Active reminder ten minutes before an anchor at 23:40 resolves to 23:30 that evening:
  the minute 1410 is inside the overnight window (1410 is at least 1380), yet the trigger
  is left where it is and carries no annotation. The code compares the trigger with one
  occurrence of the window only, the one from Sunday 23:00 to Monday 07:00.
\<close>

theorem activeReminders_overnight_window_missed:
  "activeReminders mondayMorning None [lateReminder] [lateAnchor] [nightWindow]
     = [\<lparr>reminder = lateReminder, event = lateAnchor, triggerTime = Some 430200000,
         shiftedReason = None\<rparr>]
   \<and> timeToMinutes (dnd_startTime nightWindow) = Some 1380
   \<and> timeToMinutes (dnd_endTime nightWindow) = Some 420
   \<and> minuteOfDay 430200000 = 1410
   \<and> insideWindow 1380 420 (minuteOfDay 430200000)"
proof -
  have f: "find (\<lambda>e. event_id e = eventId lateReminder) [lateAnchor] = Some lateAnchor"
    by (simp add: lateAnchor_def lateReminder_def)
  have w: "dnd_day nightWindow = Monday"
    by (simp add: nightWindow_def)
  have s: "dndShift mondayMorning [nightWindow] (Some 430200000) = (Some 430200000, None)"
    by (simp add: dndShift_def w todayDay_mondayMorning dndBounds_night js_ge_def js_le_def)
  have st: "status lateReminder = Active" by (simp add: lateReminder_def)
  have r: "resolveReminder mondayMorning [lateAnchor] [nightWindow] lateReminder
      = Some \<lparr>reminder = lateReminder, event = lateAnchor, triggerTime = Some 430200000,
         shiftedReason = None\<rparr>"
  proof -
    have nl: "\<not> js_lt (Some 430200000) (Some mondayMorning)"
      by (simp add: js_lt_def mondayMorning_def)
    show ?thesis unfolding resolveReminder_def f
      by (simp add: baseTrigger_late s st nl)
  qed
  have a: "activeReminders mondayMorning None [lateReminder] [lateAnchor] [nightWindow]
     = [\<lparr>reminder = lateReminder, event = lateAnchor, triggerTime = Some 430200000,
         shiftedReason = None\<rparr>]"
    by (simp add: activeReminders_def pauseInEffect_def st r sort_by_def)
  have t1: "timeToMinutes (dnd_startTime nightWindow) = Some 1380"
    by (simp add: nightWindow_def timeToMinutes_def parse_defs js_add_def js_mul_def)
  have t2: "timeToMinutes (dnd_endTime nightWindow) = Some 420"
    by (simp add: nightWindow_def timeToMinutes_def parse_defs js_add_def js_mul_def)
  have m: "minuteOfDay 430200000 = 1410"
    by (simp add: minuteOfDay_def msPerDay_def)
  show ?thesis unfolding a t1 t2 m by (simp add: insideWindow_def)
qed

text \<open>
  A trigger exactly at the end of the window is outside the half-open window, but the code
  includes both ends in its comparison and annotates it.
\<close>

lemma activeReminders_window_end_annotated:
  "activeReminders mondayMorning None [lateReminder\<lparr>offsetMinutes := 0\<rparr>] [nineAnchor] [morningWindow]
     = [\<lparr>reminder = lateReminder\<lparr>offsetMinutes := 0\<rparr>, event = nineAnchor,
         triggerTime = Some 378000000, shiftedReason = Some ''DND-shifted''\<rparr>]
   \<and> minuteOfDay 378000000 = 540
   \<and> \<not> insideWindow 480 540 (minuteOfDay 378000000)"
proof -
  let ?r = "lateReminder\<lparr>offsetMinutes := 0\<rparr>"
  have f: "find (\<lambda>e. event_id e = eventId ?r) [nineAnchor] = Some nineAnchor"
    by (simp add: nineAnchor_def lateReminder_def)
  have b: "baseTrigger mondayMorning nineAnchor ?r = Some 378000000"
    by (simp add: baseTrigger_def nineAnchor_def lateReminder_def parse_defs setHours_def
      startOfDay_mondayMorning js_add_def Let_def)
  have w: "dnd_day morningWindow = Monday"
    by (simp add: morningWindow_def)
  have s: "dndShift mondayMorning [morningWindow] (Some 378000000)
      = (Some 378000000, Some ''DND-shifted'')"
    by (simp add: dndShift_def w todayDay_mondayMorning dndBounds_morning js_ge_def js_le_def)
  have st: "status ?r = Active" by (simp add: lateReminder_def)
  have r: "resolveReminder mondayMorning [nineAnchor] [morningWindow] ?r
      = Some \<lparr>reminder = ?r, event = nineAnchor, triggerTime = Some 378000000,
         shiftedReason = Some ''DND-shifted''\<rparr>"
  proof -
    have nl: "\<not> js_lt (Some 378000000) (Some mondayMorning)"
      by (simp add: js_lt_def mondayMorning_def)
    show ?thesis unfolding resolveReminder_def f
      by (simp add: b s st nl)
  qed
  have a: "activeReminders mondayMorning None [?r] [nineAnchor] [morningWindow]
     = [\<lparr>reminder = ?r, event = nineAnchor, triggerTime = Some 378000000,
         shiftedReason = Some ''DND-shifted''\<rparr>]"
    by (simp add: activeReminders_def pauseInEffect_def st r sort_by_def)
  have m: "minuteOfDay 378000000 = 540"
    by (simp add: minuteOfDay_def msPerDay_def)
  show ?thesis unfolding a m by (simp add: insideWindow_def)
qed

text \<open>
  Once the window of the morning is over, the code places the window at Monday 23:00 to
  Tuesday 07:00, and the same reminder is moved to the end of the window and annotated.
\<close>

lemma activeReminders_overnight_window_shifted_at_noon:
  "activeReminders mondayNoon None [lateReminder] [lateAnchor] [nightWindow]
     = [\<lparr>reminder = lateReminder, event = lateAnchor, triggerTime = Some 457200000,
         shiftedReason = Some ''DND-shifted''\<rparr>]"
proof -
  have f: "find (\<lambda>e. event_id e = eventId lateReminder) [lateAnchor] = Some lateAnchor"
    by (simp add: lateAnchor_def lateReminder_def)
  have td: "todayDay mondayNoon = Monday"
    by (simp add: todayDay_def getDay_def mondayNoon_def msPerDay_def DAYS_OF_WEEK_def)
  have sd: "startOfDay mondayNoon = 345600000"
    by (simp add: startOfDay_def mondayNoon_def msPerDay_def)
  have bt: "baseTrigger mondayNoon lateAnchor lateReminder = Some 430200000"
    by (simp add: baseTrigger_def lateAnchor_def lateReminder_def parse_defs setHours_def
        sd js_add_def Let_def)
  have db: "dndBounds mondayNoon nightWindow = Some (428400000, 457200000)"
    by (simp add: dndBounds_def nightWindow_def parse_defs startOfDay_def Let_def
        mondayNoon_def msPerDay_def)
  have w: "dnd_day nightWindow = Monday"
    by (simp add: nightWindow_def)
  have s: "dndShift mondayNoon [nightWindow] (Some 430200000)
      = (Some 457200000, Some ''DND-shifted'')"
    by (simp add: dndShift_def w td db js_ge_def js_le_def)
  have st: "status lateReminder = Active" by (simp add: lateReminder_def)
  have nl: "\<not> js_lt (Some 430200000) (Some mondayNoon)"
    by (simp add: js_lt_def mondayNoon_def)
  have r: "resolveReminder mondayNoon [lateAnchor] [nightWindow] lateReminder
      = Some \<lparr>reminder = lateReminder, event = lateAnchor, triggerTime = Some 457200000,
         shiftedReason = Some ''DND-shifted''\<rparr>"
    unfolding resolveReminder_def f by (simp add: bt s st nl)
  show ?thesis
    by (simp add: activeReminders_def pauseInEffect_def st r sort_by_def)
qed

text \<open>
  What the do-not-disturb step does for a usable window: a trigger between the two
  instants, ends included, is moved to the second and annotated; any other trigger is
  left alone and not annotated.
\<close>

lemma dndShift_closed_interval:
  assumes "find (\<lambda>d. dnd_day d = todayDay now) dnds = Some w"
    and "dndBounds now w = Some (dndStart, dndEnd)"
  shows "dndShift now dnds (Some t) =
     (if dndStart \<le> t \<and> t \<le> dndEnd then (Some dndEnd, Some ''DND-shifted'') else (Some t, None))"
  using assms by (simp add: dndShift_def js_ge_def js_le_def)

section \<open>Properties of the reminder actions\<close>

lemma laterTime_window:
  assumes w: "find (\<lambda>d. dnd_day d = todayDay now) dnds = Some w"
    and ne: "dnd_startTime w \<noteq> []"
    and p: "parseHM (dnd_startTime w) = (Some h, Some m)"
  shows "laterTime now dnds =
     (let start0 = startOfDay now + h * 3600000 + m * 60000;
          nextStart = (if start0 < now then start0 + msPerDay else start0);
          capped = min (now + 3 * 3600000) (nextStart - 15 * 60000)
      in if capped \<le> now then now + 3600000 else capped)"
  using assms by (simp add: laterTime_def Let_def min_def)

lemma laterTime_no_window:
  assumes "find (\<lambda>d. dnd_day d = todayDay now) dnds = None"
  shows "laterTime now dnds = now + 3 * 3600000"
  using assms by (simp add: laterTime_def)

lemma laterTime_unusable_window:
  assumes "find (\<lambda>d. dnd_day d = todayDay now) dnds = Some w"
    and "dnd_startTime w = [] \<or> fst (parseHM (dnd_startTime w)) = None
         \<or> snd (parseHM (dnd_startTime w)) = None"
  shows "laterTime now dnds = now + 3 * 3600000"
proof (cases "parseHM (dnd_startTime w)")
  case (Pair h m)
  with assms show ?thesis
    by (cases h; cases m) (auto simp: laterTime_def Let_def)
qed

lemma laterTime_bounds: "now < laterTime now dnds \<and> laterTime now dnds \<le> now + 3 * 3600000"
proof (cases "find (\<lambda>d. dnd_day d = todayDay now) dnds")
  case None
  then show ?thesis by (simp add: laterTime_no_window)
next
  case (Some w)
  show ?thesis
  proof (cases "parseHM (dnd_startTime w)")
    case (Pair h m)
    show ?thesis
    proof (cases "dnd_startTime w \<noteq> [] \<and> h \<noteq> None \<and> m \<noteq> None")
      case True
      then obtain hv mv where "h = Some hv" "m = Some mv" by auto
      with True Pair have "parseHM (dnd_startTime w) = (Some hv, Some mv)" by simp
      from laterTime_window[OF Some _ this] True show ?thesis
        by (simp add: Let_def min_def)
    next
      case False
      with Pair have "dnd_startTime w = [] \<or> fst (parseHM (dnd_startTime w)) = None
         \<or> snd (parseHM (dnd_startTime w)) = None" by auto
      from laterTime_unusable_window[OF Some this] show ?thesis by simp
    qed
  qed
qed

lemma handle_later_set:
  assumes "find (\<lambda>r. reminder_id r = rid) rs = Some r0"
  shows "handleReminderAction now dnds rs rid act_later =
     map (\<lambda>r. if reminder_id r = rid
               then r\<lparr>status := Snoozed, snoozedUntil := Some (laterTime now dnds),
                      successHistory := successHistory r @ [snoozed],
                      lastInteraction := Some now\<rparr>
               else r) rs"
  using assms by (simp add: handleReminderAction_def applyAction_def)

lemma find_Some_member: "find P xs = Some x \<Longrightarrow> x \<in> set xs"
  by (induction xs) (auto split: if_splits)

lemma find_Some_holds: "find P xs = Some x \<Longrightarrow> P x"
  by (induction xs) (auto split: if_splits)

text \<open>
  C7, as amended. The ``later'' action on a reminder that exists sets its status to Snoozed
  and its \<open>snoozedUntil\<close> to now plus three hours, capped to 15 minutes before the next
  occurrence of the start of today's do-not-disturb window (today's start if it is not
  before now, the same clock time tomorrow otherwise) whenever that cap is earlier; and
  when the capped time is not after now, to now plus one hour. With no window for today, or
  one whose start is empty or does not parse, the target is now plus three hours. The target is always after now and at most three hours
  away.
\<close>

theorem later_action_target:
  assumes f: "find (\<lambda>r. reminder_id r = rid) rs = Some r0"
  shows "(\<forall>r \<in> set (handleReminderAction now dnds rs rid act_later).
            reminder_id r = rid \<longrightarrow>
              status r = Snoozed \<and> snoozedUntil r = Some (laterTime now dnds))
       \<and> (\<exists>r \<in> set (handleReminderAction now dnds rs rid act_later). reminder_id r = rid)
       \<and> (\<forall>w h m. find (\<lambda>d. dnd_day d = todayDay now) dnds = Some w
              \<and> dnd_startTime w \<noteq> [] \<and> parseHM (dnd_startTime w) = (Some h, Some m) \<longrightarrow>
            laterTime now dnds =
              (let start0 = startOfDay now + h * 3600000 + m * 60000;
                   nextStart = (if start0 < now then start0 + msPerDay else start0);
                   capped = min (now + 3 * 3600000) (nextStart - 15 * 60000)
               in if capped \<le> now then now + 3600000 else capped))
       \<and> (find (\<lambda>d. dnd_day d = todayDay now) dnds = None \<longrightarrow>
            laterTime now dnds = now + 3 * 3600000)
       \<and> (\<forall>w. find (\<lambda>d. dnd_day d = todayDay now) dnds = Some w
              \<and> (dnd_startTime w = [] \<or> fst (parseHM (dnd_startTime w)) = None
                   \<or> snd (parseHM (dnd_startTime w)) = None) \<longrightarrow>
            laterTime now dnds = now + 3 * 3600000)
       \<and> now < laterTime now dnds \<and> laterTime now dnds \<le> now + 3 * 3600000"
proof -
  from f have "r0 \<in> set rs" by (rule find_Some_member)
  moreover from find_Some_holds[OF f] have "reminder_id r0 = rid" .
  ultimately have "r0 \<in> set rs" "reminder_id r0 = rid" by blast+
  then have "(\<lambda>r. if reminder_id r = rid
               then r\<lparr>status := Snoozed, snoozedUntil := Some (laterTime now dnds),
                      successHistory := successHistory r @ [snoozed],
                      lastInteraction := Some now\<rparr>
               else r) r0 \<in> set (handleReminderAction now dnds rs rid act_later)"
    unfolding handle_later_set[OF f] set_map by (intro imageI)
  with \<open>reminder_id r0 = rid\<close>
  have ex: "\<exists>r \<in> set (handleReminderAction now dnds rs rid act_later). reminder_id r = rid"
    by (intro bexI[of _ "r0\<lparr>status := Snoozed, snoozedUntil := Some (laterTime now dnds),
          successHistory := successHistory r0 @ [snoozed], lastInteraction := Some now\<rparr>"])
      simp_all
  have all: "\<forall>r \<in> set (handleReminderAction now dnds rs rid act_later).
            reminder_id r = rid \<longrightarrow>
              status r = Snoozed \<and> snoozedUntil r = Some (laterTime now dnds)"
    unfolding handle_later_set[OF f] set_map
  proof (intro ballI impI)
    fix r
    assume "r \<in> (\<lambda>r. if reminder_id r = rid
               then r\<lparr>status := Snoozed, snoozedUntil := Some (laterTime now dnds),
                      successHistory := successHistory r @ [snoozed],
                      lastInteraction := Some now\<rparr>
               else r) ` set rs" and i: "reminder_id r = rid"
    then obtain x where "r = (if reminder_id x = rid
               then x\<lparr>status := Snoozed, snoozedUntil := Some (laterTime now dnds),
                      successHistory := successHistory x @ [snoozed],
                      lastInteraction := Some now\<rparr>
               else x)" by blast
    with i show "status r = Snoozed \<and> snoozedUntil r = Some (laterTime now dnds)"
      by (cases "reminder_id x = rid") simp_all
  qed
  have win: "\<forall>w h m. find (\<lambda>d. dnd_day d = todayDay now) dnds = Some w
              \<and> dnd_startTime w \<noteq> [] \<and> parseHM (dnd_startTime w) = (Some h, Some m) \<longrightarrow>
            laterTime now dnds =
              (let start0 = startOfDay now + h * 3600000 + m * 60000;
                   nextStart = (if start0 < now then start0 + msPerDay else start0);
                   capped = min (now + 3 * 3600000) (nextStart - 15 * 60000)
               in if capped \<le> now then now + 3600000 else capped)"
    using laterTime_window by blast
  have nowin: "find (\<lambda>d. dnd_day d = todayDay now) dnds = None \<longrightarrow>
            laterTime now dnds = now + 3 * 3600000"
    using laterTime_no_window by blast
  have unusable: "\<forall>w. find (\<lambda>d. dnd_day d = todayDay now) dnds = Some w
              \<and> (dnd_startTime w = [] \<or> fst (parseHM (dnd_startTime w)) = None
                   \<or> snd (parseHM (dnd_startTime w)) = None) \<longrightarrow>
            laterTime now dnds = now + 3 * 3600000"
    using laterTime_unusable_window by blast
  show ?thesis
    using all ex win nowin unusable laterTime_bounds[of now dnds] by (intro conjI) blast+
qed

lemma todayDay_mondayNine: "todayDay mondayNine = Monday"
  by (simp add: todayDay_def getDay_def mondayNine_def msPerDay_def DAYS_OF_WEEK_def)

lemma parseHM_morning: "parseHM (dnd_startTime morningWindow) = (Some 8, Some 0)"
  by (simp add: morningWindow_def parse_defs)

lemma find_morningWindow:
  "find (\<lambda>d. dnd_day d = todayDay mondayNine) [morningWindow] = Some morningWindow"
  by (simp add: todayDay_mondayNine morningWindow_def)

lemma startTime_morningWindow: "dnd_startTime morningWindow \<noteq> []"
  by (simp add: morningWindow_def)

lemma laterTime_mondayNine: "laterTime mondayNine [morningWindow] = mondayNine + 3 * 3600000"
  unfolding laterTime_window[OF find_morningWindow startTime_morningWindow parseHM_morning]
  by (simp add: startOfDay_def mondayNine_def msPerDay_def Let_def)

theorem later_action_target_witness:
  "find (\<lambda>r. reminder_id r = ''r1'') [lateReminder] = Some lateReminder
   \<and> find (\<lambda>d. dnd_day d = todayDay mondayNine) [morningWindow] = Some morningWindow
   \<and> dnd_startTime morningWindow \<noteq> []
   \<and> parseHM (dnd_startTime morningWindow) = (Some 8, Some 0)
   \<and> laterTime mondayNine [morningWindow] = mondayNine + 3 * 3600000
   \<and> mondayNine < laterTime mondayNine [morningWindow]"
proof -
  have f: "find (\<lambda>r. reminder_id r = ''r1'') [lateReminder] = Some lateReminder"
    by (simp add: lateReminder_def)
  note t = later_action_target[OF f, of mondayNine "[morningWindow]"]
  from t have "laterTime mondayNine [morningWindow] =
              (let start0 = startOfDay mondayNine + 8 * 3600000 + 0 * 60000;
                   nextStart = (if start0 < mondayNine then start0 + msPerDay else start0);
                   capped = min (mondayNine + 3 * 3600000) (nextStart - 15 * 60000)
               in if capped \<le> mondayNine then mondayNine + 3600000 else capped)"
    using find_morningWindow startTime_morningWindow parseHM_morning by blast
  then have v: "laterTime mondayNine [morningWindow] = mondayNine + 3 * 3600000"
    by (simp add: startOfDay_def mondayNine_def msPerDay_def Let_def)
  from t have b: "mondayNine < laterTime mondayNine [morningWindow]" by blast
  from f find_morningWindow startTime_morningWindow parseHM_morning v b show ?thesis
    by blast
qed

text \<open>
  As the claim C7 words it, the cap is taken from today's start of the window even when
  that start is behind now. On a Monday at 09:00 with the Monday window starting at 08:00,
  that reading caps the target to 07:45, which has passed, and falls back to 10:00; the code
  moves the start to Tuesday 08:00 and snoozes until 12:00.
\<close>

theorem later_action_counterexample:
  "handleReminderAction mondayNine [morningWindow] [lateReminder] ''r1'' act_later
     = [lateReminder\<lparr>status := Snoozed, snoozedUntil := Some (mondayNine + 3 * 3600000),
          successHistory := [snoozed], lastInteraction := Some mondayNine\<rparr>]
   \<and> laterTime_spec mondayNine [morningWindow] = mondayNine + 3600000
   \<and> laterTime mondayNine [morningWindow] \<noteq> laterTime_spec mondayNine [morningWindow]"
proof -
  have f: "find (\<lambda>r. reminder_id r = ''r1'') [lateReminder] = Some lateReminder"
    by (simp add: lateReminder_def)
  have a: "handleReminderAction mondayNine [morningWindow] [lateReminder] ''r1'' act_later
     = [lateReminder\<lparr>status := Snoozed, snoozedUntil := Some (mondayNine + 3 * 3600000),
          successHistory := [snoozed], lastInteraction := Some mondayNine\<rparr>]"
    unfolding handle_later_set[OF f] laterTime_mondayNine by (simp add: lateReminder_def)
  have b: "laterTime_spec mondayNine [morningWindow] = mondayNine + 3600000"
    unfolding laterTime_spec_def find_morningWindow option.case parseHM_morning prod.case
    by (simp add: startOfDay_def mondayNine_def msPerDay_def Let_def)
  have c: "mondayNine + 3 * 3600000 \<noteq> mondayNine + 3600000" by simp
  show ?thesis unfolding a b laterTime_mondayNine using c by simp
qed

section \<open>Properties of moving an anchor\<close>

lemma is_digit_digit_char: "d < 10 \<Longrightarrow> is_digit (digit_char d)"
proof -
  assume "d < 10"
  then have "d \<in> {0, 1, 2, 3, 4, 5, 6, 7, 8, 9}" by auto
  then show ?thesis by (auto simp: is_digit_def digit_char_def)
qed

lemma digit_val_digit_char: "d < 10 \<Longrightarrow> digit_val (digit_char d) = d"
proof -
  assume "d < 10"
  then have "d \<in> {0, 1, 2, 3, 4, 5, 6, 7, 8, 9}" by auto
  then show ?thesis by (auto simp: digit_val_def digit_char_def)
qed

lemma timeToMinutes_digits:
  assumes d: "is_digit a" "is_digit b" "is_digit c" "is_digit e"
  shows "timeToMinutes [a, b, CHR '':'', c, e] =
     Some (int ((10 * digit_val a + digit_val b) * 60 + (10 * digit_val c + digit_val e)))"
  unfolding timeToMinutes_def
  by (simp add: split_colon_digits2 d js_Number_two js_add_def js_mul_def del: split_colon.simps)

lemma timeToMinutes_minutesToTime_small:
  assumes "h \<le> 23" "m \<le> 59"
  shows "timeToMinutes (minutesToTime (Some (int (h * 60 + m)))) = Some (int (h * 60 + m))"
proof -
  have h: "h div 10 < 10" "h mod 10 < 10" using assms by simp_all
  have m: "m div 10 < 10" "m mod 10 < 10" using assms by simp_all
  have "timeToMinutes (minutesToTime (Some (int (h * 60 + m)))) =
     Some (int ((10 * digit_val (digit_char (h div 10)) + digit_val (digit_char (h mod 10))) * 60
        + (10 * digit_val (digit_char (m div 10)) + digit_val (digit_char (m mod 10)))))"
    unfolding minutesToTime_small[OF assms]
    by (rule timeToMinutes_digits) (simp_all add: is_digit_digit_char h m)
  also have "\<dots> = Some (int (h * 60 + m))"
    by (simp only: digit_val_digit_char h m mult_div_mod_eq)
  finally show ?thesis .
qed

lemma timeToMinutes_minutesToTime:
  assumes "0 \<le> n"
  shows "timeToMinutes (minutesToTime (Some n)) = Some (n mod 1440)"
proof -
  define k where "k = n mod 1440"
  have k: "0 \<le> k" "k < 1440" by (simp_all add: k_def)
  define h where "h = nat (k div 60)"
  define m where "m = nat (k mod 60)"
  have kd: "0 \<le> k div 60" "k div 60 \<le> 23" "0 \<le> k mod 60" "k mod 60 \<le> 59"
    using k by simp_all
  have hm: "h \<le> 23" "m \<le> 59" using kd by (simp_all add: h_def m_def)
  have "int (h * 60 + m) = k" using kd by (simp add: h_def m_def)
  then show ?thesis
    using timeToMinutes_minutesToTime_small[OF hm] minutesToTime_wraps_nonneg[OF assms]
    by (simp add: k_def)
qed

lemma find_map_update:
  assumes "find (\<lambda>x. key x = k) xs = Some e" and "\<And>x. key (g x) = key x"
  shows "find (\<lambda>x. key x = k) (map (\<lambda>x. if key x = k then g x else x) xs) = Some (g e)"
  using assms by (induction xs) (auto split: if_splits)

lemma moveEvent_found:
  assumes f: "find (\<lambda>x. event_id x = eid) evs = Some e"
  shows "find (\<lambda>x. event_id x = eid) (moveEvent evs eid td newStart) =
     Some (e\<lparr>day := td,
             startTime := (case newStart of None \<Rightarrow> startTime e
                           | Some t \<Rightarrow> if t = [] then startTime e else t),
             endTime := minutesToTime (js_add
                (timeToMinutes (case newStart of None \<Rightarrow> startTime e
                           | Some t \<Rightarrow> if t = [] then startTime e else t))
                (js_sub (timeToMinutes (endTime e)) (timeToMinutes (startTime e))))\<rparr>)"
proof -
  let ?start = "case newStart of None \<Rightarrow> startTime e | Some t \<Rightarrow> if t = [] then startTime e else t"
  let ?g = "\<lambda>x. x\<lparr>day := td, startTime := ?start,
      endTime := minutesToTime (js_add (timeToMinutes ?start)
                (js_sub (timeToMinutes (endTime e)) (timeToMinutes (startTime e))))\<rparr>"
  have "moveEvent evs eid td newStart = map (\<lambda>x. if event_id x = eid then ?g x else x) evs"
    using f by (simp add: moveEvent_def Let_def)
  moreover have "find (\<lambda>x. event_id x = eid) (map (\<lambda>x. if event_id x = eid then ?g x else x) evs)
      = Some (?g e)"
    by (rule find_map_update[OF f]) simp
  ultimately show ?thesis by simp
qed

lemma valid_time_nonempty: "valid_time t \<Longrightarrow> t \<noteq> []"
  by (auto simp: valid_time_def)

lemma moved_duration:
  assumes s: "timeToMinutes (startTime e) = Some s"
    and en: "timeToMinutes (endTime e) = Some en"
    and s': "timeToMinutes start = Some s'"
    and nonneg: "0 \<le> s' + (en - s)"
  shows "durationOf (e\<lparr>day := td, startTime := start,
             endTime := minutesToTime (js_add (timeToMinutes start)
                (js_sub (timeToMinutes (endTime e)) (timeToMinutes (startTime e))))\<rparr>)
         = Some ((s' + (en - s)) mod 1440 - s')"
  using timeToMinutes_minutesToTime[OF nonneg]
  by (simp add: durationOf_def s en s' js_add_def js_sub_def)

text \<open>
  A conflict that \<open>handleDrop\<close> raises comes with a new start that keeps the sum of new start
  and duration above zero: the anchor starts before the other interval ends, and the new
  start is that end.
\<close>

lemma overlap_nonneg_sum:
  assumes o: "doTimesOverlap (startTime e) (endTime e) otherStart otherEnd"
    and s: "timeToMinutes (startTime e) = Some s"
    and en: "timeToMinutes (endTime e) = Some en"
    and v: "valid_time (endTime e)"
    and oe: "timeToMinutes otherEnd = Some s'"
  shows "0 \<le> s' + (en - s)"
proof -
  from o s oe have "s < s'"
    by (simp add: doTimesOverlap_def Let_def js_lt_def)
  moreover from v en have "0 \<le> en"
    by (auto elim: timeToMinutes_valid_range)
  ultimately show ?thesis by simp
qed

lemma resolve_shift_overlap:
  assumes c: "st_conflict st = Some c"
    and ov: "find (\<lambda>x. Some (event_id x) = overlappingEventId c) (st_scheduleEvents st) = Some ov"
    and v: "valid_time (endTime ov)"
  shows "st_scheduleEvents (resolveConflict st shift_overlap)
     = moveEvent (st_scheduleEvents st) (eventToMoveId c) (targetDay c) (Some (endTime ov))"
  using assms by (simp add: resolveConflict_def Let_def minutesToTime_timeToMinutes)

text \<open>
  C6, as amended. Resolving an overlap conflict with ``shift to avoid'', the overlapping
  anchor having a well-formed end time, gives the moved anchor that end time as its start
  and the target day as its day. For every move through \<open>moveEvent\<close> of an anchor with
  well-formed times, to a well-formed start time or with none given, such that the new
  start plus the duration is not below zero (every move without a new start and every
  conflict raised by \<open>handleDrop\<close> is such a move), the duration (end minus start, in
  minutes) is unchanged modulo 1440, the end time wrapping past midnight; it is unchanged
  exactly whenever the new start plus the duration stays below 24 hours.
\<close>

theorem moveEvent_shift_and_duration:
  "(st_conflict st = Some c
     \<and> find (\<lambda>x. Some (event_id x) = overlappingEventId c) (st_scheduleEvents st) = Some ov
     \<and> valid_time (endTime ov)
     \<and> find (\<lambda>x. event_id x = eventToMoveId c) (st_scheduleEvents st) = Some moved
    \<longrightarrow> (\<exists>e'. find (\<lambda>x. event_id x = eventToMoveId c)
                  (st_scheduleEvents (resolveConflict st shift_overlap)) = Some e'
              \<and> startTime e' = endTime ov \<and> day e' = targetDay c))
   \<and> (find (\<lambda>x. event_id x = eid) evs = Some e
       \<and> valid_time (startTime e) \<and> valid_time (endTime e)
       \<and> timeToMinutes (startTime e) = Some s \<and> timeToMinutes (endTime e) = Some en
       \<and> (newStart = None \<or> (\<exists>t. newStart = Some t \<and> valid_time t))
       \<and> timeToMinutes (case newStart of None \<Rightarrow> startTime e | Some t \<Rightarrow> t) = Some s'
       \<and> 0 \<le> s' + (en - s)
    \<longrightarrow> (\<exists>e' d'. find (\<lambda>x. event_id x = eid) (moveEvent evs eid td newStart) = Some e'
              \<and> day e' = td
              \<and> startTime e' = (case newStart of None \<Rightarrow> startTime e | Some t \<Rightarrow> t)
              \<and> durationOf e = Some (en - s)
              \<and> durationOf e' = Some d'
              \<and> d' mod 1440 = (en - s) mod 1440
              \<and> (s' + (en - s) < 1440 \<longrightarrow> d' = en - s)))
   \<and> (find (\<lambda>x. event_id x = eid) evs = Some e
       \<and> valid_time (startTime e) \<and> valid_time (endTime e)
       \<and> timeToMinutes (startTime e) = Some s \<and> timeToMinutes (endTime e) = Some en
    \<longrightarrow> (\<exists>e'. find (\<lambda>x. event_id x = eid) (moveEvent evs eid td None) = Some e'
              \<and> day e' = td \<and> startTime e' = startTime e \<and> endTime e' = endTime e
              \<and> durationOf e' = durationOf e))"
proof (intro conjI impI)
  assume a: "st_conflict st = Some c
     \<and> find (\<lambda>x. Some (event_id x) = overlappingEventId c) (st_scheduleEvents st) = Some ov
     \<and> valid_time (endTime ov)
     \<and> find (\<lambda>x. event_id x = eventToMoveId c) (st_scheduleEvents st) = Some moved"
  then have ne: "endTime ov \<noteq> []" by (simp add: valid_time_nonempty)
  from a have r: "st_scheduleEvents (resolveConflict st shift_overlap)
     = moveEvent (st_scheduleEvents st) (eventToMoveId c) (targetDay c) (Some (endTime ov))"
    by (intro resolve_shift_overlap) simp_all
  from a have f: "find (\<lambda>x. event_id x = eventToMoveId c) (st_scheduleEvents st) = Some moved"
    by simp
  show "\<exists>e'. find (\<lambda>x. event_id x = eventToMoveId c)
                  (st_scheduleEvents (resolveConflict st shift_overlap)) = Some e'
              \<and> startTime e' = endTime ov \<and> day e' = targetDay c"
    unfolding r moveEvent_found[OF f] using ne by simp
next
  assume a: "find (\<lambda>x. event_id x = eid) evs = Some e
       \<and> valid_time (startTime e) \<and> valid_time (endTime e)
       \<and> timeToMinutes (startTime e) = Some s \<and> timeToMinutes (endTime e) = Some en
       \<and> (newStart = None \<or> (\<exists>t. newStart = Some t \<and> valid_time t))
       \<and> timeToMinutes (case newStart of None \<Rightarrow> startTime e | Some t \<Rightarrow> t) = Some s'
       \<and> 0 \<le> s' + (en - s)"
  let ?start = "case newStart of None \<Rightarrow> startTime e | Some t \<Rightarrow> t"
  from a have f: "find (\<lambda>x. event_id x = eid) evs = Some e" by simp
  from a have st: "(case newStart of None \<Rightarrow> startTime e
                    | Some t \<Rightarrow> if t = [] then startTime e else t) = ?start"
    by (auto simp: valid_time_nonempty)
  from a have s': "timeToMinutes ?start = Some s'" and nonneg: "0 \<le> s' + (en - s)"
    by simp_all
  let ?e' = "e\<lparr>day := td, startTime := ?start,
             endTime := minutesToTime (js_add (timeToMinutes ?start)
                (js_sub (timeToMinutes (endTime e)) (timeToMinutes (startTime e))))\<rparr>"
  from a have ts: "timeToMinutes (startTime e) = Some s"
    and te: "timeToMinutes (endTime e) = Some en" by simp_all
  have found: "find (\<lambda>x. event_id x = eid) (moveEvent evs eid td newStart) = Some ?e'"
    unfolding moveEvent_found[OF f] st ..
  have d: "durationOf ?e' = Some ((s' + (en - s)) mod 1440 - s')"
    by (rule moved_duration[OF ts te s' nonneg])
  have d0: "durationOf e = Some (en - s)"
    by (simp add: durationOf_def ts te js_sub_def)
  have cong: "((s' + (en - s)) mod 1440 - s') mod 1440 = (en - s) mod 1440"
    by (metis add_diff_cancel_left' mod_diff_left_eq)
  have exact: "s' + (en - s) < 1440 \<longrightarrow> (s' + (en - s)) mod 1440 - s' = en - s"
    using nonneg by simp
  show "\<exists>e' d'. find (\<lambda>x. event_id x = eid) (moveEvent evs eid td newStart) = Some e'
              \<and> day e' = td
              \<and> startTime e' = (case newStart of None \<Rightarrow> startTime e | Some t \<Rightarrow> t)
              \<and> durationOf e = Some (en - s)
              \<and> durationOf e' = Some d'
              \<and> d' mod 1440 = (en - s) mod 1440
              \<and> (s' + (en - s) < 1440 \<longrightarrow> d' = en - s)"
    apply (rule exI[of _ ?e'])
    apply (rule exI[of _ "(s' + (en - s)) mod 1440 - s'"])
    using found d d0 cong exact by simp
next
  assume a: "find (\<lambda>x. event_id x = eid) evs = Some e
       \<and> valid_time (startTime e) \<and> valid_time (endTime e)
       \<and> timeToMinutes (startTime e) = Some s \<and> timeToMinutes (endTime e) = Some en"
  then have f: "find (\<lambda>x. event_id x = eid) evs = Some e"
    and ts: "timeToMinutes (startTime e) = Some s"
    and te: "timeToMinutes (endTime e) = Some en"
    and ve: "valid_time (endTime e)" by simp_all
  have "minutesToTime (js_add (timeToMinutes (startTime e))
          (js_sub (timeToMinutes (endTime e)) (timeToMinutes (startTime e))))
        = minutesToTime (timeToMinutes (endTime e))"
    by (simp add: ts te js_add_def js_sub_def)
  also have "\<dots> = endTime e" by (rule minutesToTime_timeToMinutes[OF ve])
  finally have e: "minutesToTime (js_add (timeToMinutes (startTime e))
          (js_sub (timeToMinutes (endTime e)) (timeToMinutes (startTime e)))) = endTime e" .
  show "\<exists>e'. find (\<lambda>x. event_id x = eid) (moveEvent evs eid td None) = Some e'
              \<and> day e' = td \<and> startTime e' = startTime e \<and> endTime e' = endTime e
              \<and> durationOf e' = durationOf e"
    unfolding moveEvent_found[OF f] by (simp add: e durationOf_def)
qed

lemma tm_1000: "timeToMinutes ''10:00'' = Some 600"
  by (simp add: timeToMinutes_def parse_defs js_add_def js_mul_def)

lemma tm_1200: "timeToMinutes ''12:00'' = Some 720"
  by (simp add: timeToMinutes_def parse_defs js_add_def js_mul_def)

lemma tm_0900: "timeToMinutes ''09:00'' = Some 540"
  by (simp add: timeToMinutes_def parse_defs js_add_def js_mul_def)

lemma tm_2300: "timeToMinutes ''23:00'' = Some 1380"
  by (simp add: timeToMinutes_def parse_defs js_add_def js_mul_def)

lemma tm_0100: "timeToMinutes ''01:00'' = Some 60"
  by (simp add: timeToMinutes_def parse_defs js_add_def js_mul_def)

lemma mt_1380: "minutesToTime (Some 1380) = ''23:00''"
  using minutesToTime_small[of 23 0] by (simp add: digit_char_def)

lemma mt_1500: "minutesToTime (Some 1500) = ''01:00''"
  using minutesToTime_wraps_nonneg[of 1500] minutesToTime_small[of 1 0]
  by (simp add: digit_char_def)

lemma handleDrop_dragState:
  "handleDrop dragState ''a1'' Tuesday =
     dragState\<lparr>st_conflict := Some \<lparr>kind = overlap, eventToMoveId = ''a1'', targetDay = Tuesday,
                                     overlappingEventId = Some ''b1''\<rparr>\<rparr>"
  by (simp add: handleDrop_def dragState_def movingAnchor_def blockingAnchor_def
      doTimesOverlap_def tm_1000 tm_1200 tm_0900 tm_2300 js_lt_def js_gt_def Let_def)

lemma events_after_drop:
  "st_scheduleEvents (handleDrop dragState ''a1'' Tuesday) = [movingAnchor, blockingAnchor]"
  unfolding handleDrop_dragState by (simp add: dragState_def)

lemma resolve_dragState:
  "st_scheduleEvents (resolveConflict (handleDrop dragState ''a1'' Tuesday) shift_overlap)
     = [movingAnchor\<lparr>day := Tuesday, startTime := ''23:00'', endTime := ''01:00''\<rparr>,
        blockingAnchor]"
  unfolding handleDrop_dragState
  by (simp add: resolveConflict_def dragState_def movingAnchor_def blockingAnchor_def
      moveEvent_def tm_1000 tm_1200 tm_2300 mt_1380 mt_1500 js_add_def js_sub_def Let_def)

text \<open>
  As the claim C6 words it, the duration is unchanged by every move. Dropping the anchor
  10:00--12:00 on a Tuesday filled from 09:00 to 23:00 raises an overlap conflict, and
  ``shift to avoid'' moves it to 23:00--01:00: the end time has wrapped, and end minus start
  is -1320 minutes instead of 120.
\<close>

theorem moveEvent_wrap_counterexample:
  "st_conflict (handleDrop dragState ''a1'' Tuesday)
     = Some \<lparr>kind = overlap, eventToMoveId = ''a1'', targetDay = Tuesday,
             overlappingEventId = Some ''b1''\<rparr>
   \<and> st_scheduleEvents (resolveConflict (handleDrop dragState ''a1'' Tuesday) shift_overlap)
     = [movingAnchor\<lparr>day := Tuesday, startTime := ''23:00'', endTime := ''01:00''\<rparr>,
        blockingAnchor]
   \<and> durationOf movingAnchor = Some 120
   \<and> durationOf (movingAnchor\<lparr>day := Tuesday, startTime := ''23:00'', endTime := ''01:00''\<rparr>)
       = Some (- 1320)
   \<and> durationOf (movingAnchor\<lparr>day := Tuesday, startTime := ''23:00'', endTime := ''01:00''\<rparr>)
       \<noteq> durationOf movingAnchor"
proof -
  have a: "durationOf movingAnchor = Some 120"
    by (simp add: durationOf_def movingAnchor_def tm_1000 tm_1200 js_sub_def)
  have b: "durationOf (movingAnchor\<lparr>day := Tuesday, startTime := ''23:00'', endTime := ''01:00''\<rparr>)
       = Some (- 1320)"
    by (simp add: durationOf_def tm_2300 tm_0100 js_sub_def)
  show ?thesis unfolding resolve_dragState a b by (simp add: handleDrop_dragState)
qed

lemma valid_2300: "valid_time ''23:00''"
  by (simp add: valid_time_def is_digit_def digit_val_def)

lemma valid_1000: "valid_time ''10:00''"
  by (simp add: valid_time_def is_digit_def digit_val_def)

lemma valid_1200: "valid_time ''12:00''"
  by (simp add: valid_time_def is_digit_def digit_val_def)

lemma valid_1300: "valid_time ''13:00''"
  by (simp add: valid_time_def is_digit_def digit_val_def)

lemma tm_1300: "timeToMinutes ''13:00'' = Some 780"
  by (simp add: timeToMinutes_def parse_defs js_add_def js_mul_def)

lemma valid_0100: "valid_time ''01:00''"
  by (simp add: valid_time_def is_digit_def digit_val_def)

theorem moveEvent_shift_and_duration_witness:
  "st_conflict (handleDrop dragState ''a1'' Tuesday)
     = Some \<lparr>kind = overlap, eventToMoveId = ''a1'', targetDay = Tuesday,
             overlappingEventId = Some ''b1''\<rparr>
   \<and> valid_time (endTime blockingAnchor)
   \<and> (\<exists>e'. find (\<lambda>x. event_id x = ''a1'')
          (st_scheduleEvents (resolveConflict (handleDrop dragState ''a1'' Tuesday) shift_overlap))
          = Some e'
        \<and> startTime e' = endTime blockingAnchor \<and> day e' = Tuesday)
   \<and> find (\<lambda>x. event_id x = ''a1'') [movingAnchor, blockingAnchor] = Some movingAnchor
   \<and> valid_time (startTime movingAnchor) \<and> valid_time (endTime movingAnchor)
   \<and> timeToMinutes (startTime movingAnchor) = Some 600
   \<and> timeToMinutes (endTime movingAnchor) = Some 720
   \<and> valid_time ''13:00'' \<and> timeToMinutes ''13:00'' = Some 780
   \<and> (0::int) \<le> 780 + (720 - 600)
   \<and> (\<exists>e' d'. find (\<lambda>x. event_id x = ''a1'')
            (moveEvent [movingAnchor, blockingAnchor] ''a1'' Tuesday (Some ''13:00'')) = Some e'
          \<and> day e' = Tuesday \<and> startTime e' = ''13:00''
          \<and> durationOf e' = Some d' \<and> d' = 120)
   \<and> valid_time ''23:00'' \<and> valid_time ''01:00''
   \<and> timeToMinutes ''23:00'' = Some 1380 \<and> timeToMinutes ''01:00'' = Some 60
   \<and> (\<exists>e'. find (\<lambda>x. event_id x = ''a1'')
            (moveEvent [movingAnchor\<lparr>day := Tuesday, startTime := ''23:00'', endTime := ''01:00''\<rparr>,
                        blockingAnchor] ''a1'' Wednesday None) = Some e'
          \<and> day e' = Wednesday \<and> startTime e' = ''23:00'' \<and> endTime e' = ''01:00''
          \<and> durationOf e' = Some (- 1320))"
proof -
  let ?st = "handleDrop dragState ''a1'' Tuesday"
  let ?c = "\<lparr>kind = overlap, eventToMoveId = ''a1'', targetDay = Tuesday,
             overlappingEventId = Some ''b1''\<rparr>"
  let ?night = "movingAnchor\<lparr>day := Tuesday, startTime := ''23:00'', endTime := ''01:00''\<rparr>"
  have c: "st_conflict ?st = Some ?c" by (simp add: handleDrop_dragState)
  have ov: "find (\<lambda>x. Some (event_id x) = overlappingEventId ?c) (st_scheduleEvents ?st)
      = Some blockingAnchor"
    unfolding events_after_drop by (simp add: movingAnchor_def blockingAnchor_def)
  have v: "valid_time (endTime blockingAnchor)"
    by (simp add: blockingAnchor_def valid_2300)
  have mv: "find (\<lambda>x. event_id x = eventToMoveId ?c) (st_scheduleEvents ?st) = Some movingAnchor"
    unfolding events_after_drop by (simp add: movingAnchor_def)
  have f: "find (\<lambda>x. event_id x = ''a1'') [movingAnchor, blockingAnchor] = Some movingAnchor"
    by (simp add: movingAnchor_def)
  have vs: "valid_time (startTime movingAnchor)" by (simp add: movingAnchor_def valid_1000)
  have ve: "valid_time (endTime movingAnchor)" by (simp add: movingAnchor_def valid_1200)
  have ts: "timeToMinutes (startTime movingAnchor) = Some 600" by (simp add: movingAnchor_def tm_1000)
  have te: "timeToMinutes (endTime movingAnchor) = Some 720" by (simp add: movingAnchor_def tm_1200)
  have nn: "(0::int) \<le> 780 + (720 - 600)" by simp
  note t = moveEvent_shift_and_duration[of ?st ?c blockingAnchor movingAnchor "''a1''"
      "[movingAnchor, blockingAnchor]" movingAnchor 600 720 "Some ''13:00''" 780 Tuesday]
  from t c ov v mv
  have p1: "\<exists>e'. find (\<lambda>x. event_id x = ''a1'')
          (st_scheduleEvents (resolveConflict ?st shift_overlap)) = Some e'
        \<and> startTime e' = endTime blockingAnchor \<and> day e' = Tuesday"
    by simp
  from t f vs ve ts te valid_1300 tm_1300 nn
  have p2: "\<exists>e' d'. find (\<lambda>x. event_id x = ''a1'')
            (moveEvent [movingAnchor, blockingAnchor] ''a1'' Tuesday (Some ''13:00'')) = Some e'
          \<and> day e' = Tuesday \<and> startTime e' = ''13:00''
          \<and> durationOf e' = Some d' \<and> d' = 120"
    by auto
  have fn: "find (\<lambda>x. event_id x = ''a1'') [?night, blockingAnchor] = Some ?night"
    by (simp add: movingAnchor_def)
  have dn: "durationOf ?night = Some (- 1320)"
    by (simp add: durationOf_def tm_2300 tm_0100 js_sub_def)
  note u = moveEvent_shift_and_duration[of ?st ?c blockingAnchor movingAnchor "''a1''"
      "[?night, blockingAnchor]" ?night 1380 60 None 1380 Wednesday]
  from u fn valid_2300 valid_0100 tm_2300 tm_0100
  have "\<exists>e'. find (\<lambda>x. event_id x = ''a1'')
            (moveEvent [?night, blockingAnchor] ''a1'' Wednesday None) = Some e'
          \<and> day e' = Wednesday \<and> startTime e' = startTime ?night \<and> endTime e' = endTime ?night
          \<and> durationOf e' = durationOf ?night"
    by simp
  then have p3: "\<exists>e'. find (\<lambda>x. event_id x = ''a1'')
            (moveEvent [?night, blockingAnchor] ''a1'' Wednesday None) = Some e'
          \<and> day e' = Wednesday \<and> startTime e' = ''23:00'' \<and> endTime e' = ''01:00''
          \<and> durationOf e' = Some (- 1320)"
    unfolding dn by simp
  from c v p1 f vs ve ts te valid_1300 tm_1300 nn p2 valid_2300 valid_0100 tm_2300 tm_0100 p3
  show ?thesis by simp
qed

text \<open>
  A move whose new start plus duration is below zero gives an end time that is not a time
  of day, and the duration is not kept, not even modulo 1440: the overnight anchor
  23:00--01:30 moved to start at 10:00 ends at \<open>-12:-30\<close>, and end minus start goes from
  -1290 to -1350. No move without a new start and no conflict that \<open>handleDrop\<close> raises
  leads there.
\<close>

lemma moveEvent_negative_sum:
  "moveEvent [movingAnchor\<lparr>startTime := ''23:00'', endTime := ''01:30''\<rparr>] ''a1'' Tuesday
       (Some ''10:00'')
     = [movingAnchor\<lparr>day := Tuesday, startTime := ''10:00'', endTime := ''-12:-30''\<rparr>]
   \<and> durationOf (movingAnchor\<lparr>startTime := ''23:00'', endTime := ''01:30''\<rparr>) = Some (- 1290)
   \<and> durationOf (movingAnchor\<lparr>day := Tuesday, startTime := ''10:00'', endTime := ''-12:-30''\<rparr>)
       = Some (- 1350)"
proof -
  have t1: "timeToMinutes ''01:30'' = Some 90"
    by (simp add: timeToMinutes_def parse_defs js_add_def js_mul_def)
  have t2: "timeToMinutes ''-12:-30'' = Some (- 750)"
    by (simp add: timeToMinutes_def parse_defs js_add_def js_mul_def)
  have d12: "digits_of_nat 12 = ''12''"
    by (simp add: digits_of_nat_two digit_char_def)
  have d30: "digits_of_nat 30 = ''30''"
    by (simp add: digits_of_nat_two digit_char_def)
  have m: "minutesToTime (Some (- 690)) = ''-12:-30''"
    by (simp add: minutesToTime_def js_floor_div_def js_rem_def js_rem_int_def Let_def
        js_String_def padStart2_def d12 d30 digit_char_def)
  have a: "moveEvent [movingAnchor\<lparr>startTime := ''23:00'', endTime := ''01:30''\<rparr>] ''a1'' Tuesday
       (Some ''10:00'')
     = [movingAnchor\<lparr>day := Tuesday, startTime := ''10:00'', endTime := ''-12:-30''\<rparr>]"
    by (simp add: moveEvent_def movingAnchor_def tm_2300 t1 tm_1000 js_add_def js_sub_def m Let_def)
  have b: "durationOf (movingAnchor\<lparr>startTime := ''23:00'', endTime := ''01:30''\<rparr>) = Some (- 1290)"
    by (simp add: durationOf_def tm_2300 t1 js_sub_def)
  have c: "durationOf (movingAnchor\<lparr>day := Tuesday, startTime := ''10:00'', endTime := ''-12:-30''\<rparr>)
       = Some (- 1350)"
    by (simp add: durationOf_def tm_1000 t2 js_sub_def)
  from a b c show ?thesis by simp
qed

end
